theory Spec2Isabelle
  imports Complex_Main
begin

text \<open>
  The replay buffer manager of OBSReplayCompanion, class GameCapture
  (src/GameCapture.h and src/GameCapture.cpp): its settings values, the state of the
  object, the methods that start, stop, reset and save the replay buffer, and the
  properties of its lifecycle.
\<close>

section \<open>Output folder naming (GameCapture.cpp, GetPathForGameName)\<close>

text \<open>
  A QString is modelled as a \<open>string\<close> whose characters are Latin-1 code points.
  \<open>isSpace\<close> is QChar::isSpace on that range (tab, line feed, vertical tab, form feed,
  carriage return, space, U+0085 and U+00A0); \<open>trimmed\<close> is QString::trimmed, which
  removes such characters from both ends.
\<close>

definition isSpace :: "char \<Rightarrow> bool" where
  "isSpace c = (let n = (of_char c :: nat)
                in n = 32 \<or> (9 \<le> n \<and> n \<le> 13) \<or> n = 133 \<or> n = 160)"

definition trimmed :: "string \<Rightarrow> string" where
  "trimmed s = rev (dropWhile isSpace (rev (dropWhile isSpace s)))"

text \<open>The character class of the regular expression \<^verbatim>\<open>[<>:"/\\|?*]\<close>.\<close>

definition invalidChars :: "char list" where
  "invalidChars = [CHR ''<'', CHR ''>'', CHR '':'', CHR 0x22, CHR ''/'', CHR 0x5C,
                   CHR ''|'', CHR ''?'', CHR ''*'']"

text \<open>
  \<open>cleanGameName.replace(invalidCharsRegex, "_")\<close>: the expression matches one character
  at a time, so every match is a single character and is replaced by an underscore.
\<close>

primrec replace_invalid :: "string \<Rightarrow> string" where
  "replace_invalid [] = []"
| "replace_invalid (c # cs) =
     (if c \<in> set invalidChars then ''_'' @ replace_invalid cs else c # replace_invalid cs)"

definition GetPathForGameName :: "string \<Rightarrow> string \<Rightarrow> string" where
  "GetPathForGameName outputFolder gameName =
     (let baseFolder = outputFolder in
      if gameName = [] \<or> gameName = ''Unknown'' then baseFolder @ ''/General''
      else
        let cleanGameName = trimmed (replace_invalid gameName) in
        if cleanGameName = [] then baseFolder @ ''/General''
        else baseFolder @ ''/'' @ cleanGameName)"

text \<open>
  The naming contract in the specification's words: every character of the set is
  replaced by an underscore, the result is trimmed, and the folder is \<open>General\<close> for an
  empty name, the name \<open>Unknown\<close>, or a name that is empty after sanitization.
\<close>

definition spec_sanitized :: "string \<Rightarrow> string" where
  "spec_sanitized name =
     trimmed (map (\<lambda>c. if c \<in> set invalidChars then CHR ''_'' else c) name)"

definition spec_folder :: "string \<Rightarrow> string \<Rightarrow> string" where
  "spec_folder outRoot name =
     outRoot @ ''/'' @ (if name = [] \<or> name = ''Unknown'' \<or> spec_sanitized name = []
                     then ''General'' else spec_sanitized name)"

section \<open>Settings values (GameCapture.h)\<close>

datatype EncoderType =
  NVENC_H264 | NVENC_HEVC | QSV_H264 | QSV_HEVC | AMF_H264 | AMF_HEVC | X264 | X265

record EncoderInfo =
  info_type :: EncoderType
  info_id :: string
  info_name :: string

text \<open>
  The C++ \<open>int\<close> fields are only stored and compared, so they are integers here; the
  \<open>float\<close> fields are only stored, compared and handed to the engine, so they are reals
  (a NaN is outside the model). Fields of different structs that share a name carry
  the struct as a prefix.
\<close>

record AudioSettings =
  audio_enabled :: bool
  audio_sampleRate :: int
  audio_bitrate :: int
  audio_channels :: int
  audio_volume :: real
  audio_deviceId :: string
  audio_deviceName :: string

definition AudioSettings_default :: AudioSettings where
  "AudioSettings_default =
     \<lparr>audio_enabled = True, audio_sampleRate = 48000, audio_bitrate = 192,
      audio_channels = 2, audio_volume = 1, audio_deviceId = ''default'',
      audio_deviceName = ''Default''\<rparr>"

text \<open>\<open>AudioSettings::operator==\<close>\<close>

definition AudioSettings_eq :: "AudioSettings \<Rightarrow> AudioSettings \<Rightarrow> bool" where
  "AudioSettings_eq a other =
     (audio_enabled a = audio_enabled other \<and>
      audio_bitrate a = audio_bitrate other \<and>
      audio_deviceId a = audio_deviceId other)"

record MicrophoneSettings =
  mic_enabled :: bool
  mic_sampleRate :: int
  mic_channels :: int
  mic_volume :: real
  mic_deviceId :: string
  mic_deviceName :: string
  mic_noiseSuppression :: bool
  mic_noiseGate :: bool
  mic_noiseGateThreshold :: real
  mic_noiseGateCloseThreshold :: real
  mic_noiseGateHoldTime :: real
  mic_noiseGateReleaseTime :: real

definition MicrophoneSettings_default :: MicrophoneSettings where
  "MicrophoneSettings_default =
     \<lparr>mic_enabled = False, mic_sampleRate = 48000, mic_channels = 1, mic_volume = 1,
      mic_deviceId = ''default'', mic_deviceName = ''Default Microphone'',
      mic_noiseSuppression = True, mic_noiseGate = False,
      mic_noiseGateThreshold = - 30, mic_noiseGateCloseThreshold = - 32,
      mic_noiseGateHoldTime = 200, mic_noiseGateReleaseTime = 150\<rparr>"

text \<open>\<open>MicrophoneSettings::operator==\<close>\<close>

definition MicrophoneSettings_eq :: "MicrophoneSettings \<Rightarrow> MicrophoneSettings \<Rightarrow> bool" where
  "MicrophoneSettings_eq a other =
     (mic_enabled a = mic_enabled other \<and> mic_deviceId a = mic_deviceId other)"

record EncodingSettings =
  encoder :: EncoderType
  bitrate :: int
  use_cbr :: bool
  crf :: int
  keyint_sec :: int
  x264Preset :: string
  x264Profile :: string
  x264Tune :: string
  x264opts :: string
  nvencPreset :: string
  nvencTuning :: string
  nvencMultipass :: string
  nvencProfile :: string
  nvencLookahead :: bool
  nvencPsychoVisualTuning :: bool
  nvencGpu :: int
  nvencMaxBFrames :: int
  qsvPreset :: string
  qsvProfile :: string
  qsvLowPower :: bool
  amfUsage :: string
  amfProfile :: string
  amf_bframes :: int
  amf_opts :: string

definition EncodingSettings_default :: EncodingSettings where
  "EncodingSettings_default =
     \<lparr>encoder = X264, bitrate = 8000, use_cbr = True, crf = 22, keyint_sec = 0,
      x264Preset = ''veryfast'', x264Profile = ''high'', x264Tune = ''none'', x264opts = [],
      nvencPreset = ''p5'', nvencTuning = ''hq'', nvencMultipass = ''qres'',
      nvencProfile = ''high'', nvencLookahead = False, nvencPsychoVisualTuning = True,
      nvencGpu = 0, nvencMaxBFrames = 2,
      qsvPreset = ''balanced'', qsvProfile = ''high'', qsvLowPower = False,
      amfUsage = ''quality'', amfProfile = ''high'', amf_bframes = 2, amf_opts = []\<rparr>"

text \<open>\<open>EncodingSettings::operator==\<close>: the cheap comparisons first, the strings last.\<close>

definition EncodingSettings_eq :: "EncodingSettings \<Rightarrow> EncodingSettings \<Rightarrow> bool" where
  "EncodingSettings_eq a other =
     (if encoder a \<noteq> encoder other \<or>
         bitrate a \<noteq> bitrate other \<or>
         use_cbr a \<noteq> use_cbr other \<or>
         crf a \<noteq> crf other \<or>
         keyint_sec a \<noteq> keyint_sec other \<or>
         nvencLookahead a \<noteq> nvencLookahead other \<or>
         nvencPsychoVisualTuning a \<noteq> nvencPsychoVisualTuning other \<or>
         nvencGpu a \<noteq> nvencGpu other \<or>
         nvencMaxBFrames a \<noteq> nvencMaxBFrames other \<or>
         qsvLowPower a \<noteq> qsvLowPower other \<or>
         amf_bframes a \<noteq> amf_bframes other
      then False
      else x264Preset a = x264Preset other \<and>
           x264Profile a = x264Profile other \<and>
           x264Tune a = x264Tune other \<and>
           x264opts a = x264opts other \<and>
           nvencPreset a = nvencPreset other \<and>
           nvencTuning a = nvencTuning other \<and>
           nvencMultipass a = nvencMultipass other \<and>
           nvencProfile a = nvencProfile other \<and>
           qsvPreset a = qsvPreset other \<and>
           qsvProfile a = qsvProfile other \<and>
           amfUsage a = amfUsage other \<and>
           amfProfile a = amfProfile other \<and>
           amf_opts a = amf_opts other)"

text \<open>The tracking struct \<open>GameCapture::BufferState\<close>.\<close>

record BufferState =
  isActive :: bool
  lastEncodingSettings :: EncodingSettings
  lastAudioSettings :: AudioSettings
  lastMicrophoneSettings :: MicrophoneSettings
  lastBufferDuration :: int

definition BufferState_reset :: "BufferState \<Rightarrow> BufferState" where
  "BufferState_reset b =
     b\<lparr>isActive := False, lastBufferDuration := 0,
       lastEncodingSettings := EncodingSettings_default,
       lastAudioSettings := AudioSettings_default,
       lastMicrophoneSettings := MicrophoneSettings_default\<rparr>"

definition hasEncodingChanges :: "BufferState \<Rightarrow> EncodingSettings \<Rightarrow> bool" where
  "hasEncodingChanges b current = (\<not> EncodingSettings_eq (lastEncodingSettings b) current)"

definition hasAudioChanges :: "BufferState \<Rightarrow> AudioSettings \<Rightarrow> bool" where
  "hasAudioChanges b current = (\<not> AudioSettings_eq (lastAudioSettings b) current)"

definition hasMicrophoneChanges :: "BufferState \<Rightarrow> MicrophoneSettings \<Rightarrow> bool" where
  "hasMicrophoneChanges b current =
     (\<not> MicrophoneSettings_eq (lastMicrophoneSettings b) current)"

section \<open>The capture engine as the manager sees it\<close>

text \<open>
  The engine is an external library. An object handle of the source is modelled by the
  object it points to, with the properties the manager sets and reads. Objects carry a
  serial number taken at creation, so that a recreated object differs from the one it
  replaces. The settings dictionaries handed to the engine when an object is created or
  updated are not modelled, apart from the fields below. A video encoder carries the
  EncodingSettings value from which \<open>CreateEncoder\<close> built its dictionary. An output
  counts the calls of \<open>signal_handler_connect\<close> for its stop signal and the calls of
  \<open>obs_output_stop\<close> made on it.
\<close>

record obs_source =
  source_serial :: nat
  source_device_id :: string
  source_volume :: real
  source_enabled :: bool
  source_filter :: "bool option"
    \<comment> \<open>the filter named "Noise Suppression": absent, or present and enabled or not\<close>

record obs_encoder =
  encoder_serial :: nat
  encoder_id :: string

record obs_video_encoder = obs_encoder +
  encoder_created_with :: EncodingSettings

record obs_output =
  output_serial :: nat
  output_active :: bool
  output_stopping :: bool
  output_video_encoder :: "nat option"
  output_audio_encoder :: "nat option"
  output_signal_handler :: bool
  output_proc_handler :: bool
  output_stop_connected :: bool
  output_saved_connected :: bool
  output_stop_connects :: nat
  output_stop_requests :: nat
  output_max_time_sec :: int
  output_directory :: string

text \<open>
  What the engine and the file system answer during one operation. Every call whose
  result the manager tests is a field, so that each failure branch of the source is a
  branch of the model.
\<close>

record obs_env =
  env_startup :: bool
    \<comment> \<open>data files found, obs_startup, video and audio reset and scene creation all succeed\<close>
  env_encoder_types :: "string list"
    \<comment> \<open>the identifiers obs_enum_encoder_types enumerates\<close>
  env_validate :: bool
    \<comment> \<open>video and audio outputs exist with a non-zero geometry\<close>
  env_video_encoder_create :: "string \<Rightarrow> bool"
  env_video_encoder_fallback :: bool
  env_audio_encoder_create :: bool
  env_audio_source_create :: bool
  env_mic_source_create :: bool
  env_filter_create :: bool
  env_game_source_create :: bool
  env_output_create :: bool
  env_output_signal_handler :: bool
  env_output_proc_handler :: bool
  env_output_start :: bool
  env_save_proc :: bool
  env_absolutePath :: "string \<Rightarrow> string"
  env_fileName :: "string \<Rightarrow> string"
  env_rename :: "string \<Rightarrow> string \<Rightarrow> bool"
  env_exists :: "string \<Rightarrow> bool"
  env_latest_file :: "string \<Rightarrow> string option"

text \<open>
  Engine calls on an output. A stop request is asynchronous: the output stays active
  until the engine has stopped it. Calls on a null handle do nothing and fail.
\<close>

definition obs_output_start :: "obs_env \<Rightarrow> obs_output option \<Rightarrow> bool \<times> obs_output option" where
  "obs_output_start env out =
     (case out of
        None \<Rightarrow> (False, None)
      | Some p \<Rightarrow>
          if env_output_start env
          then (True, Some (p\<lparr>output_active := True, output_stopping := False\<rparr>))
          else (False, Some p))"

definition obs_output_stop :: "obs_output \<Rightarrow> obs_output" where
  "obs_output_stop p =
     p\<lparr>output_stopping := True, output_stop_requests := Suc (output_stop_requests p)\<rparr>"

definition obs_output_force_stop :: "obs_output \<Rightarrow> obs_output" where
  "obs_output_force_stop p = p\<lparr>output_active := False, output_stopping := False\<rparr>"

definition connect_stop :: "obs_output \<Rightarrow> obs_output" where
  "connect_stop p =
     (if output_signal_handler p
      then p\<lparr>output_stop_connected := True,
             output_stop_connects := Suc (output_stop_connects p)\<rparr>
      else p)"

definition disconnect_stop :: "obs_output \<Rightarrow> obs_output" where
  "disconnect_stop p =
     (if output_signal_handler p then p\<lparr>output_stop_connected := False\<rparr> else p)"

text \<open>Calls the manager makes, counted, and the output objects alive in the engine.\<close>

record obs_stats =
  CreateEncoder_calls :: nat
  CreateAudioEncoder_calls :: nat
  CreateAudioSource_calls :: nat
  CreateMicrophoneSource_calls :: nat
  output_create_calls :: nat
  encoder_release_calls :: nat
  source_release_calls :: nat
  live_outputs :: nat

section \<open>The state of a GameCapture object\<close>

record QTimer =
  timer_interval :: int
  timer_singleShot :: bool
  timer_active :: bool

definition timer_start :: "QTimer \<Rightarrow> QTimer" where
  "timer_start t = t\<lparr>timer_active := True\<rparr>"

definition timer_stop :: "QTimer \<Rightarrow> QTimer" where
  "timer_stop t = t\<lparr>timer_active := False\<rparr>"

text \<open>The two closures stored in \<open>m_pendingBufferCallback\<close>.\<close>

datatype pending_callback = CleanupCallback | FastResetCallback

text \<open>The closures handed to \<open>QTimer::singleShot\<close>, with their delay in milliseconds.\<close>

datatype single_shot =
    RestartClippingMode   \<comment> \<open>500: StartClippingMode\<close>
  | ReapplyEncoderSettings   \<comment> \<open>1000: in StartBufferOutput\<close>
  | PostSaveReset   \<comment> \<open>200: in handleReplayBufferSaved\<close>
  | VerifyFastReset   \<comment> \<open>500: in the fast reset continuation\<close>

datatype qt_signal =
    recordingStarted
  | recordingFinished bool string
  | clippingModeChanged bool

text \<open>
  The members of the class, with the Qt signals emitted so far, the single-shot closures
  waiting in the event loop and the engine counters. \<open>m_saveCooldownTimer\<close> holds the
  clock reading, in milliseconds, at which the elapsed timer was last started. The
  members for live recording, which nothing assigns, and the capture geometry are left
  out.
\<close>

record GameCapture =
  m_obsInitialized :: bool
  m_isRecording :: bool
  m_clippingModeActive :: bool
  m_audioSettings :: AudioSettings
  m_microphoneSettings :: MicrophoneSettings
  m_encodingSettings :: EncodingSettings
  m_availableEncoders :: "EncoderInfo list"
  m_bufferState :: BufferState
  m_scene :: bool
  m_currentSource :: "string option"
  m_desktopAudioSource :: "obs_source option"
  m_microphoneSource :: "obs_source option"
  m_bufferOutput :: "obs_output option"
  m_bufferVideoEncoder :: "obs_video_encoder option"
  m_bufferAudioEncoder :: "obs_encoder option"
  m_bufferStopTimer :: QTimer
  m_saveClipTimeoutTimer :: QTimer
  m_pendingBufferCallback :: "pending_callback option"
  m_saveCooldownTimer :: int
  m_currentRecordingFile :: string
  m_outputFolder :: string
  m_currentGameName :: string
  m_cachedGameFolder :: string
  m_bufferDurationSeconds :: int
  singleShots :: "single_shot list"
  emitted :: "qt_signal list"
  obs :: obs_stats

definition SAVE_COOLDOWN_MS :: int where
  "SAVE_COOLDOWN_MS = 2000"

text \<open>The constructor, run when the clock reads \<open>now\<close>.\<close>

definition GameCapture_new :: "int \<Rightarrow> GameCapture" where
  "GameCapture_new now =
     \<lparr>m_obsInitialized = False, m_isRecording = False, m_clippingModeActive = False,
      m_audioSettings = AudioSettings_default,
      m_microphoneSettings = MicrophoneSettings_default,
      m_encodingSettings = EncodingSettings_default,
      m_availableEncoders = [],
      m_bufferState = BufferState_reset
        \<lparr>isActive = False, lastEncodingSettings = EncodingSettings_default,
         lastAudioSettings = AudioSettings_default,
         lastMicrophoneSettings = MicrophoneSettings_default, lastBufferDuration = 0\<rparr>,
      m_scene = False, m_currentSource = None,
      m_desktopAudioSource = None, m_microphoneSource = None,
      m_bufferOutput = None, m_bufferVideoEncoder = None, m_bufferAudioEncoder = None,
      m_bufferStopTimer =
        \<lparr>timer_interval = 3000, timer_singleShot = True, timer_active = False\<rparr>,
      m_saveClipTimeoutTimer =
        \<lparr>timer_interval = 30000, timer_singleShot = True, timer_active = False\<rparr>,
      m_pendingBufferCallback = None,
      m_saveCooldownTimer = now,
      m_currentRecordingFile = [], m_outputFolder = [], m_currentGameName = [],
      m_cachedGameFolder = [],
      m_bufferDurationSeconds = 60,
      singleShots = [], emitted = [],
      obs = \<lparr>CreateEncoder_calls = 0, CreateAudioEncoder_calls = 0,
             CreateAudioSource_calls = 0, CreateMicrophoneSource_calls = 0,
             output_create_calls = 0, encoder_release_calls = 0,
             source_release_calls = 0, live_outputs = 0\<rparr>\<rparr>"

definition emit :: "qt_signal \<Rightarrow> GameCapture \<Rightarrow> GameCapture" where
  "emit sig s = s\<lparr>emitted := emitted s @ [sig]\<rparr>"

definition singleShot :: "single_shot \<Rightarrow> GameCapture \<Rightarrow> GameCapture" where
  "singleShot f s = s\<lparr>singleShots := singleShots s @ [f]\<rparr>"

section \<open>Encoder and source factory\<close>

text \<open>The table of \<open>DetectAvailableEncoders\<close>: engine identifier, kind, display name.\<close>

definition encoder_map :: "(string \<times> EncoderType \<times> string) list" where
  "encoder_map =
     [(''ffmpeg_nvenc'', NVENC_H264, ''NVIDIA NVENC H.264''),
      (''ffmpeg_hevc_nvenc'', NVENC_HEVC, ''NVIDIA NVENC HEVC''),
      (''obs_qsv11'', QSV_H264, ''Intel Quick Sync (QSV) H.264''),
      (''h264_texture_amf'', AMF_H264, ''AMD AMF H.264 (AVC)''),
      (''h265_texture_amf'', AMF_HEVC, ''AMD AMF HEVC''),
      (''obs_x264'', X264, ''Software (x264)''),
      (''obs_x265'', X265, ''Software (x265)'')]"

definition DetectAvailableEncoders :: "obs_env \<Rightarrow> GameCapture \<Rightarrow> GameCapture" where
  "DetectAvailableEncoders env s =
     s\<lparr>m_availableEncoders :=
         List.map_filter
           (\<lambda>current_id.
              case map_of encoder_map current_id of
                None \<Rightarrow> None
              | Some (t, n) \<Rightarrow> Some \<lparr>info_type = t, info_id = current_id, info_name = n\<rparr>)
           (env_encoder_types env)\<rparr>"

definition CreateEncoder ::
  "obs_env \<Rightarrow> EncodingSettings \<Rightarrow> GameCapture \<Rightarrow> obs_video_encoder option \<times> GameCapture" where
  "CreateEncoder env settings s =
     (let n = Suc (CreateEncoder_calls (obs s));
          s1 = s\<lparr>obs := (obs s)\<lparr>CreateEncoder_calls := n\<rparr>\<rparr>;
          found = (case find (\<lambda>e. info_type e = encoder settings) (m_availableEncoders s) of
                     None \<Rightarrow> []
                   | Some e \<Rightarrow> info_id e);
          encoder_id = (if found = [] then ''obs_x264'' else found)
      in if env_video_encoder_create env encoder_id
         then (Some \<lparr>encoder_serial = n, encoder_id = encoder_id,
                     encoder_created_with = settings\<rparr>, s1)
         else if env_video_encoder_fallback env
         then (Some \<lparr>encoder_serial = n, encoder_id = ''obs_x264'',
                     encoder_created_with = settings\<rparr>, s1)
         else (None, s1))"

definition CreateAudioEncoder :: "obs_env \<Rightarrow> GameCapture \<Rightarrow> obs_encoder option \<times> GameCapture" where
  "CreateAudioEncoder env s =
     (let n = Suc (CreateAudioEncoder_calls (obs s));
          s1 = s\<lparr>obs := (obs s)\<lparr>CreateAudioEncoder_calls := n\<rparr>\<rparr>
      in if env_audio_encoder_create env
         then (Some \<lparr>encoder_serial = n, encoder_id = ''ffmpeg_aac''\<rparr>, s1)
         else (None, s1))"

definition CreateAudioSource :: "obs_env \<Rightarrow> GameCapture \<Rightarrow> obs_source option \<times> GameCapture" where
  "CreateAudioSource env s =
     (let n = Suc (CreateAudioSource_calls (obs s));
          s1 = s\<lparr>obs := (obs s)\<lparr>CreateAudioSource_calls := n\<rparr>\<rparr>
      in if env_audio_source_create env
         then (Some \<lparr>source_serial = n,
                     source_device_id =
                       (if audio_deviceId (m_audioSettings s) = [] then ''default''
                        else audio_deviceId (m_audioSettings s)),
                     source_volume = audio_volume (m_audioSettings s),
                     source_enabled = audio_enabled (m_audioSettings s),
                     source_filter = None\<rparr>, s1)
         else (None, s1))"

definition CreateMicrophoneSource :: "obs_env \<Rightarrow> GameCapture \<Rightarrow> obs_source option \<times> GameCapture" where
  "CreateMicrophoneSource env s =
     (let n = Suc (CreateMicrophoneSource_calls (obs s));
          s1 = s\<lparr>obs := (obs s)\<lparr>CreateMicrophoneSource_calls := n\<rparr>\<rparr>
      in if env_mic_source_create env
         then (Some \<lparr>source_serial = n,
                     source_device_id =
                       (if mic_deviceId (m_microphoneSettings s) = [] then ''default''
                        else mic_deviceId (m_microphoneSettings s)),
                     source_volume = mic_volume (m_microphoneSettings s),
                     source_enabled = mic_enabled (m_microphoneSettings s),
                     source_filter =
                       (if mic_noiseSuppression (m_microphoneSettings s) \<and> env_filter_create env
                        then Some True else None)\<rparr>, s1)
         else (None, s1))"

definition release_encoder :: "GameCapture \<Rightarrow> GameCapture" where
  "release_encoder s = s\<lparr>obs := (obs s)\<lparr>encoder_release_calls := Suc (encoder_release_calls (obs s))\<rparr>\<rparr>"

definition release_source :: "GameCapture \<Rightarrow> GameCapture" where
  "release_source s = s\<lparr>obs := (obs s)\<lparr>source_release_calls := Suc (source_release_calls (obs s))\<rparr>\<rparr>"

section \<open>Settings updates\<close>

definition UpdateEncodingSettings :: "EncodingSettings \<Rightarrow> GameCapture \<Rightarrow> bool \<times> GameCapture" where
  "UpdateEncodingSettings settings s =
     (if EncodingSettings_eq (m_encodingSettings s) settings then (True, s)
      else (True, s\<lparr>m_encodingSettings := settings\<rparr>))"

definition UpdateAudioSettings :: "AudioSettings \<Rightarrow> GameCapture \<Rightarrow> bool \<times> GameCapture" where
  "UpdateAudioSettings settings s =
     (let volumeChanged = (audio_volume settings \<noteq> audio_volume (m_audioSettings s));
          s1 = (case m_desktopAudioSource s of
                  Some src \<Rightarrow>
                    if volumeChanged
                    then s\<lparr>m_desktopAudioSource :=
                             Some (src\<lparr>source_volume := audio_volume settings\<rparr>)\<rparr>
                    else s
                | None \<Rightarrow> s)
      in (True, s1\<lparr>m_audioSettings := settings\<rparr>))"

definition UpdateMicrophoneSettings :: "MicrophoneSettings \<Rightarrow> GameCapture \<Rightarrow> bool \<times> GameCapture" where
  "UpdateMicrophoneSettings settings s =
     (let volumeChanged = (mic_volume settings \<noteq> mic_volume (m_microphoneSettings s));
          noiseSuppressionChanged =
            (mic_noiseSuppression settings \<noteq> mic_noiseSuppression (m_microphoneSettings s));
          s1 = (case m_microphoneSource s of
                  Some src \<Rightarrow>
                    let src1 = (if volumeChanged
                                then src\<lparr>source_volume := mic_volume settings\<rparr> else src);
                        src2 = (if noiseSuppressionChanged
                                then (case source_filter src1 of
                                        Some _ \<Rightarrow>
                                          src1\<lparr>source_filter :=
                                                  Some (mic_noiseSuppression settings)\<rparr>
                                      | None \<Rightarrow> src1)
                                else src1)
                    in s\<lparr>m_microphoneSource := Some src2\<rparr>
                | None \<Rightarrow> s)
      in (True, s1\<lparr>m_microphoneSettings := settings\<rparr>))"

definition SetBufferDuration :: "int \<Rightarrow> GameCapture \<Rightarrow> GameCapture" where
  "SetBufferDuration seconds s = s\<lparr>m_bufferDurationSeconds := seconds\<rparr>"

definition UpdateBufferSettings :: "GameCapture \<Rightarrow> bool \<times> GameCapture" where
  "UpdateBufferSettings s =
     (case m_bufferOutput s of
        None \<Rightarrow> (False, s)
      | Some p \<Rightarrow>
          if m_bufferDurationSeconds s \<noteq> lastBufferDuration (m_bufferState s)
          then (True,
                s\<lparr>m_bufferOutput := Some (p\<lparr>output_max_time_sec := m_bufferDurationSeconds s\<rparr>),
                  m_bufferState :=
                    (m_bufferState s)\<lparr>lastBufferDuration := m_bufferDurationSeconds s\<rparr>\<rparr>)
          else (True, s))"

section \<open>Game session and output folder\<close>

definition GetCurrentGameFolder :: "GameCapture \<Rightarrow> string \<times> GameCapture" where
  "GetCurrentGameFolder s =
     (if m_cachedGameFolder s \<noteq> [] then (m_cachedGameFolder s, s)
      else
        let p = GetPathForGameName (m_outputFolder s) (m_currentGameName s)
        in (p, s\<lparr>m_cachedGameFolder := p\<rparr>))"

definition UpdateBufferOutputDirectory :: "GameCapture \<Rightarrow> GameCapture" where
  "UpdateBufferOutputDirectory s =
     (case m_bufferOutput s of
        None \<Rightarrow> s
      | Some p \<Rightarrow>
          let (newGameFolder, s1) = GetCurrentGameFolder s
          in s1\<lparr>m_bufferOutput := Some (p\<lparr>output_directory := newGameFolder\<rparr>)\<rparr>)"

definition ClearCapture :: "GameCapture \<Rightarrow> GameCapture" where
  "ClearCapture s =
     (case m_currentSource s of
        Some _ \<Rightarrow> release_source (s\<lparr>m_currentSource := None\<rparr>)
      | None \<Rightarrow> s)"

text \<open>
  \<open>SetGameCapture\<close>; \<open>newGameName\<close> is the stem of the executable's path, which the source
  computes with std::filesystem.
\<close>

definition SetGameCapture ::
  "obs_env \<Rightarrow> string \<Rightarrow> string \<Rightarrow> GameCapture \<Rightarrow> bool \<times> GameCapture" where
  "SetGameCapture env exe newGameName s =
     (if newGameName = m_currentGameName s then (True, s)
      else
        let s1 = ClearCapture s in
        if env_game_source_create env
        then
          let s2 = s1\<lparr>m_currentSource := Some exe, m_currentGameName := newGameName,
                      m_cachedGameFolder := []\<rparr>
          in (True, if m_clippingModeActive s2 then UpdateBufferOutputDirectory s2 else s2)
        else (False, s1))"

definition SetOutputFolder :: "string \<Rightarrow> GameCapture \<Rightarrow> GameCapture" where
  "SetOutputFolder folder s = s\<lparr>m_outputFolder := folder\<rparr>"

section \<open>Buffer lifecycle\<close>

definition ValidateOBSState :: "obs_env \<Rightarrow> GameCapture \<Rightarrow> bool" where
  "ValidateOBSState env s = (if \<not> m_obsInitialized s then False else env_validate env)"

definition disconnectReplayBufferSignals :: "GameCapture \<Rightarrow> GameCapture" where
  "disconnectReplayBufferSignals s =
     (case m_bufferOutput s of
        Some p \<Rightarrow>
          if output_signal_handler p
          then s\<lparr>m_bufferOutput := Some (p\<lparr>output_saved_connected := False\<rparr>)\<rparr>
          else s
      | None \<Rightarrow> s)"

definition completeBufferCleanup :: "GameCapture \<Rightarrow> GameCapture" where
  "completeBufferCleanup s =
     (let s1 = (case m_bufferOutput s of
                  Some _ \<Rightarrow>
                    s\<lparr>m_bufferOutput := None,
                      obs := (obs s)\<lparr>live_outputs := live_outputs (obs s) - 1\<rparr>\<rparr>
                | None \<Rightarrow> s)
      in s1\<lparr>m_bufferState := (m_bufferState s1)\<lparr>isActive := False\<rparr>\<rparr>)"

definition CleanupCircularBuffer :: "GameCapture \<Rightarrow> GameCapture" where
  "CleanupCircularBuffer s =
     (if m_bufferOutput s = None \<and> \<not> isActive (m_bufferState s) then s
      else
        let s1 = disconnectReplayBufferSignals s in
        case m_bufferOutput s1 of
          Some p \<Rightarrow>
            if output_active p
            then s1\<lparr>m_pendingBufferCallback := Some CleanupCallback,
                    m_bufferStopTimer := timer_start (m_bufferStopTimer s1),
                    m_bufferOutput := Some (obs_output_stop (connect_stop p))\<rparr>
            else completeBufferCleanup s1
        | None \<Rightarrow> completeBufferCleanup s1)"

definition CreateBufferOutput :: "obs_env \<Rightarrow> GameCapture \<Rightarrow> bool \<times> GameCapture" where
  "CreateBufferOutput env s =
     (if m_bufferOutput s \<noteq> None then (True, s)
      else
        case (m_bufferVideoEncoder s, m_bufferAudioEncoder s) of
          (Some venc, Some aenc) \<Rightarrow>
            let (outputPath, s1) = GetCurrentGameFolder s;
                n = Suc (output_create_calls (obs s1));
                s2 = s1\<lparr>obs := (obs s1)\<lparr>output_create_calls := n\<rparr>\<rparr>
            in if \<not> env_output_create env then (False, s2)
               else (True,
                     s2\<lparr>m_bufferOutput :=
                          Some \<lparr>output_serial = n, output_active = False,
                                output_stopping = False,
                                output_video_encoder = Some (encoder_serial venc),
                                output_audio_encoder = Some (encoder_serial aenc),
                                output_signal_handler = env_output_signal_handler env,
                                output_proc_handler = env_output_proc_handler env,
                                output_stop_connected = False,
                                output_saved_connected = False,
                                output_stop_connects = 0,
                                output_stop_requests = 0,
                                output_max_time_sec = m_bufferDurationSeconds s,
                                output_directory = outputPath\<rparr>,
                        obs := (obs s2)\<lparr>live_outputs := Suc (live_outputs (obs s2))\<rparr>\<rparr>)
        | _ \<Rightarrow> (False, s))"

definition StartBufferOutput :: "obs_env \<Rightarrow> GameCapture \<Rightarrow> bool \<times> GameCapture" where
  "StartBufferOutput env s =
     (case m_bufferOutput s of
        None \<Rightarrow> (False, s)
      | Some p \<Rightarrow>
          if m_bufferVideoEncoder s = None then (False, s)
          else if output_active p then (True, s)
          else
            let (ok, out') = obs_output_start env (m_bufferOutput s);
                s1 = s\<lparr>m_bufferOutput := out'\<rparr>
            in if \<not> ok then (False, s1)
               else (True, singleShot ReapplyEncoderSettings s1))"

definition UpdateBufferVideoEncoder :: "obs_env \<Rightarrow> GameCapture \<Rightarrow> bool \<times> GameCapture" where
  "UpdateBufferVideoEncoder env s =
     (let needsRecreation =
            (m_bufferVideoEncoder s = None \<or>
             hasEncodingChanges (m_bufferState s) (m_encodingSettings s))
      in if \<not> needsRecreation then (True, s)
         else
           let s1 = (case m_bufferVideoEncoder s of
                       Some _ \<Rightarrow> release_encoder (s\<lparr>m_bufferVideoEncoder := None\<rparr>)
                     | None \<Rightarrow> s);
               (e, s2) = CreateEncoder env (m_encodingSettings s1) s1;
               s3 = s2\<lparr>m_bufferVideoEncoder := e\<rparr>
           in if e = None then (False, s3) else (True, s3))"

definition apply_noise_suppression :: "obs_env \<Rightarrow> bool \<Rightarrow> obs_source \<Rightarrow> obs_source" where
  "apply_noise_suppression env wanted src =
     (if wanted
      then (case source_filter src of
              None \<Rightarrow> if env_filter_create env then src\<lparr>source_filter := Some True\<rparr> else src
            | Some _ \<Rightarrow> src\<lparr>source_filter := Some True\<rparr>)
      else (case source_filter src of
              Some _ \<Rightarrow> src\<lparr>source_filter := Some False\<rparr>
            | None \<Rightarrow> src))"

text \<open>
  \<open>UpdateBufferAudioComponents\<close> computes its three flags first and then runs three
  blocks; each block is a definition of its own here, in the source's order.
\<close>

definition recreate_desktop_audio_source :: "obs_env \<Rightarrow> bool \<Rightarrow> GameCapture \<Rightarrow> GameCapture" where
  "recreate_desktop_audio_source env desktopDeviceChanged s =
     (if desktopDeviceChanged
      then
        let r = (if m_desktopAudioSource s \<noteq> None then release_source s else s);
            (src, r1) = CreateAudioSource env r
        in r1\<lparr>m_desktopAudioSource := src\<rparr>
      else s)"

definition apply_desktop_audio_settings :: "GameCapture \<Rightarrow> GameCapture" where
  "apply_desktop_audio_settings s =
     (case m_desktopAudioSource s of
        Some src \<Rightarrow>
          s\<lparr>m_desktopAudioSource :=
              Some (src\<lparr>source_volume := audio_volume (m_audioSettings s),
                         source_enabled := audio_enabled (m_audioSettings s)\<rparr>)\<rparr>
      | None \<Rightarrow> s)"

definition recreate_microphone_source :: "obs_env \<Rightarrow> bool \<Rightarrow> GameCapture \<Rightarrow> GameCapture" where
  "recreate_microphone_source env micDeviceChanged s =
     (if micDeviceChanged \<or>
         (m_microphoneSource s = None \<and> mic_enabled (m_microphoneSettings s))
      then
        let r = (if m_microphoneSource s \<noteq> None then release_source s else s)
        in if mic_enabled (m_microphoneSettings r)
           then (let (src, r1) = CreateMicrophoneSource env r
                 in r1\<lparr>m_microphoneSource := src\<rparr>)
           else r\<lparr>m_microphoneSource := None\<rparr>
      else s)"

definition apply_microphone_settings :: "obs_env \<Rightarrow> GameCapture \<Rightarrow> GameCapture" where
  "apply_microphone_settings env s =
     (case m_microphoneSource s of
        Some src \<Rightarrow>
          s\<lparr>m_microphoneSource :=
              Some (apply_noise_suppression env
                      (mic_noiseSuppression (m_microphoneSettings s))
                      (src\<lparr>source_volume := mic_volume (m_microphoneSettings s),
                           source_enabled := mic_enabled (m_microphoneSettings s)\<rparr>))\<rparr>
      | None \<Rightarrow> s)"

definition recreate_audio_encoder :: "obs_env \<Rightarrow> bool \<Rightarrow> GameCapture \<Rightarrow> bool \<times> GameCapture" where
  "recreate_audio_encoder env encoderSettingsChanged s =
     (if encoderSettingsChanged
      then
        let r = (if m_bufferAudioEncoder s \<noteq> None then release_encoder s else s);
            (e, r1) = CreateAudioEncoder env r;
            r2 = r1\<lparr>m_bufferAudioEncoder := e\<rparr>
        in if e = None then (False, r2) else (True, r2)
      else (True, s))"

definition UpdateBufferAudioComponents :: "obs_env \<Rightarrow> GameCapture \<Rightarrow> bool \<times> GameCapture" where
  "UpdateBufferAudioComponents env s =
     (let desktopDeviceChanged =
            (m_desktopAudioSource s = None \<or>
             audio_deviceId (lastAudioSettings (m_bufferState s)) \<noteq>
               audio_deviceId (m_audioSettings s));
          micDeviceChanged =
            (m_microphoneSource s = None \<or>
             mic_deviceId (lastMicrophoneSettings (m_bufferState s)) \<noteq>
               mic_deviceId (m_microphoneSettings s));
          encoderSettingsChanged =
            (m_bufferAudioEncoder s = None \<or>
             audio_bitrate (lastAudioSettings (m_bufferState s)) \<noteq>
               audio_bitrate (m_audioSettings s))
      in recreate_audio_encoder env encoderSettingsChanged
           (apply_microphone_settings env
              (recreate_microphone_source env micDeviceChanged
                 (apply_desktop_audio_settings
                    (recreate_desktop_audio_source env desktopDeviceChanged s)))))"

definition SetupCircularBuffer :: "obs_env \<Rightarrow> GameCapture \<Rightarrow> bool \<times> GameCapture" where
  "SetupCircularBuffer env s =
     (if \<not> ValidateOBSState env s then (False, s)
      else if isActive (m_bufferState s) then UpdateBufferSettings s
      else
        let (r1, s1) = UpdateBufferVideoEncoder env s in
        if \<not> r1 then (False, CleanupCircularBuffer s1)
        else
          let (r2, s2) = UpdateBufferAudioComponents env s1 in
          if \<not> r2 then (False, CleanupCircularBuffer s2)
          else
            let (r3, s3) = CreateBufferOutput env s2 in
            if \<not> r3 then (False, CleanupCircularBuffer s3)
            else
              let (r4, s4) = StartBufferOutput env s3 in
              if \<not> r4 then (False, CleanupCircularBuffer s4)
              else
                (True,
                 s4\<lparr>m_bufferState :=
                      \<lparr>isActive = True,
                       lastEncodingSettings = m_encodingSettings s4,
                       lastAudioSettings = m_audioSettings s4,
                       lastMicrophoneSettings = m_microphoneSettings s4,
                       lastBufferDuration = m_bufferDurationSeconds s4\<rparr>\<rparr>))"

definition StartClippingMode :: "obs_env \<Rightarrow> GameCapture \<Rightarrow> bool \<times> GameCapture" where
  "StartClippingMode env s =
     (if \<not> m_obsInitialized s \<or> m_clippingModeActive s then (False, s)
      else
        let (ok, s1) = SetupCircularBuffer env s in
        if \<not> ok then (False, CleanupCircularBuffer s1)
        else (True, emit (clippingModeChanged True) (s1\<lparr>m_clippingModeActive := True\<rparr>)))"

definition StopClippingMode :: "GameCapture \<Rightarrow> GameCapture" where
  "StopClippingMode s =
     (if \<not> m_clippingModeActive s then s
      else
        let s1 = (if m_isRecording s
                  then disconnectReplayBufferSignals (s\<lparr>m_isRecording := False\<rparr>)
                  else s);
            s2 = CleanupCircularBuffer s1
        in emit (clippingModeChanged False) (s2\<lparr>m_clippingModeActive := False\<rparr>))"

section \<open>Saving a replay\<close>

definition onSaveClipTimeout :: "GameCapture \<Rightarrow> GameCapture" where
  "onSaveClipTimeout s =
     (if m_isRecording s
      then
        let s1 = disconnectReplayBufferSignals (s\<lparr>m_isRecording := False\<rparr>)
        in emit (recordingFinished False (m_currentRecordingFile s1)) s1
      else s)"

text \<open>
  \<open>SaveInstantReplay\<close>, called when the clock reads \<open>now\<close>: the elapsed time of the
  cooldown timer is \<open>now\<close> minus the reading at which it was started.
\<close>

definition SaveInstantReplay ::
  "obs_env \<Rightarrow> int \<Rightarrow> int \<Rightarrow> string \<Rightarrow> GameCapture \<Rightarrow> bool \<times> GameCapture" where
  "SaveInstantReplay env now durationSeconds filename s =
     (if now - m_saveCooldownTimer s < SAVE_COOLDOWN_MS then (False, s)
      else
        case m_bufferOutput s of
          None \<Rightarrow> (False, s)
        | Some p \<Rightarrow>
            if \<not> m_clippingModeActive s \<or> m_isRecording s \<or> \<not> output_active p
            then (False, s)
            else
              let s1 = emit recordingStarted
                         (s\<lparr>m_saveCooldownTimer := now, m_isRecording := True\<rparr>);
                  s2 = disconnectReplayBufferSignals
                         (s1\<lparr>m_currentRecordingFile := filename\<rparr>)
              in if \<not> output_signal_handler p then (False, s2\<lparr>m_isRecording := False\<rparr>)
                 else
                   let s3 = s2\<lparr>m_bufferOutput :=
                                 map_option (\<lambda>q. q\<lparr>output_saved_connected := True\<rparr>)
                                   (m_bufferOutput s2)\<rparr>
                   in if \<not> output_proc_handler p
                      then (False, disconnectReplayBufferSignals (s3\<lparr>m_isRecording := False\<rparr>))
                      else if \<not> env_save_proc env
                      then (False, disconnectReplayBufferSignals (s3\<lparr>m_isRecording := False\<rparr>))
                      else (True,
                            s3\<lparr>m_saveClipTimeoutTimer :=
                                 timer_start (m_saveClipTimeoutTimer s3)\<rparr>))"

definition SaveClip ::
  "obs_env \<Rightarrow> int \<Rightarrow> int \<Rightarrow> string \<Rightarrow> GameCapture \<Rightarrow> bool \<times> GameCapture" where
  "SaveClip env now durationSeconds filename s =
     (if m_clippingModeActive s then SaveInstantReplay env now durationSeconds filename s
      else (False, s))"

section \<open>Fast reset and the stop continuations\<close>

definition FastBufferReset :: "GameCapture \<Rightarrow> bool \<times> GameCapture" where
  "FastBufferReset s =
     (case m_bufferOutput s of
        None \<Rightarrow> (False, s)
      | Some p \<Rightarrow>
          if \<not> output_active p \<or> m_pendingBufferCallback s \<noteq> None then (False, s)
          else
            (True,
             s\<lparr>m_pendingBufferCallback := Some FastResetCallback,
               m_bufferStopTimer := timer_start (m_bufferStopTimer s),
               m_bufferOutput := Some (obs_output_stop (connect_stop p))\<rparr>))"

text \<open>Running the closure stored in \<open>m_pendingBufferCallback\<close>.\<close>

definition run_pending :: "obs_env \<Rightarrow> pending_callback \<Rightarrow> GameCapture \<Rightarrow> GameCapture" where
  "run_pending env cb s =
     (case cb of
        CleanupCallback \<Rightarrow> (completeBufferCleanup s)\<lparr>m_pendingBufferCallback := None\<rparr>
      | FastResetCallback \<Rightarrow>
          let s1 = s\<lparr>m_pendingBufferCallback := None\<rparr> in
          if m_bufferVideoEncoder s1 = None \<or> m_bufferAudioEncoder s1 = None
          then singleShot RestartClippingMode (StopClippingMode s1)
          else
            let (ok, out') = obs_output_start env (m_bufferOutput s1);
                s2 = s1\<lparr>m_bufferOutput := out'\<rparr>
            in if \<not> ok then singleShot RestartClippingMode (StopClippingMode s2)
               else singleShot VerifyFastReset s2)"

definition onBufferStopped :: "obs_env \<Rightarrow> GameCapture \<Rightarrow> GameCapture" where
  "onBufferStopped env s =
     (let s1 = s\<lparr>m_bufferStopTimer := timer_stop (m_bufferStopTimer s)\<rparr>;
          s2 = s1\<lparr>m_bufferOutput := map_option disconnect_stop (m_bufferOutput s1)\<rparr>
      in case m_pendingBufferCallback s2 of
           Some cb \<Rightarrow> run_pending env cb s2
         | None \<Rightarrow> s2)"

definition onBufferStopTimeout :: "obs_env \<Rightarrow> GameCapture \<Rightarrow> GameCapture" where
  "onBufferStopTimeout env s =
     (let s1 = s\<lparr>m_bufferOutput :=
                  map_option
                    (\<lambda>p. let q = disconnect_stop p
                         in if output_active q then obs_output_force_stop q else q)
                    (m_bufferOutput s)\<rparr>
      in case m_pendingBufferCallback s1 of
           Some cb \<Rightarrow> run_pending env cb s1
         | None \<Rightarrow> s1)"

text \<open>
  \<open>handleReplayBufferSaved\<close>; the file system answers through the environment.
\<close>

definition handleReplayBufferSaved :: "obs_env \<Rightarrow> string \<Rightarrow> GameCapture \<Rightarrow> GameCapture" where
  "handleReplayBufferSaved env path s =
     (let s1 = disconnectReplayBufferSignals
                 (s\<lparr>m_saveClipTimeoutTimer := timer_stop (m_saveClipTimeoutTimer s),
                    m_isRecording := False\<rparr>);
          (expectedGameFolder, s2) = GetCurrentGameFolder s1;
          savedPath =
            (if path \<noteq> []
             then
               if env_absolutePath env path \<noteq> expectedGameFolder
               then
                 let correctPath = expectedGameFolder @ ''/'' @ env_fileName env path
                 in if env_rename env path correctPath then correctPath else path
               else path
             else (case env_latest_file env expectedGameFolder of
                     Some f \<Rightarrow> f
                   | None \<Rightarrow> []));
          s3 = (if savedPath \<noteq> [] \<and> env_exists env savedPath
                then emit (recordingFinished True savedPath) s2
                else emit (recordingFinished False []) s2)
      in singleShot PostSaveReset s3)"

text \<open>Running a single-shot closure.\<close>

definition run_singleShot :: "obs_env \<Rightarrow> single_shot \<Rightarrow> GameCapture \<Rightarrow> GameCapture" where
  "run_singleShot env f s =
     (case f of
        RestartClippingMode \<Rightarrow> snd (StartClippingMode env s)
      | ReapplyEncoderSettings \<Rightarrow> s
      | PostSaveReset \<Rightarrow>
          if m_clippingModeActive s
          then
            let (ok, s1) = FastBufferReset s
            in if \<not> ok then singleShot RestartClippingMode (StopClippingMode s1) else s1
          else s
      | VerifyFastReset \<Rightarrow>
          if m_clippingModeActive s \<and>
             (case m_bufferOutput s of None \<Rightarrow> True | Some p \<Rightarrow> \<not> output_active p)
          then singleShot RestartClippingMode (StopClippingMode s)
          else s)"

section \<open>Start-up and shutdown\<close>

definition Initialize :: "obs_env \<Rightarrow> GameCapture \<Rightarrow> bool \<times> GameCapture" where
  "Initialize env s =
     (if \<not> env_startup env then (False, s)
      else
        let s1 = DetectAvailableEncoders env (s\<lparr>m_scene := True\<rparr>);
            (src, s2) = CreateAudioSource env s1
        in (True, s2\<lparr>m_desktopAudioSource := src, m_obsInitialized := True\<rparr>))"

definition Shutdown :: "GameCapture \<Rightarrow> GameCapture" where
  "Shutdown s =
     (let s1 = ClearCapture (StopClippingMode s);
          s2 = (if m_bufferVideoEncoder s1 \<noteq> None
                then release_encoder (s1\<lparr>m_bufferVideoEncoder := None\<rparr>) else s1);
          s3 = (if m_bufferAudioEncoder s2 \<noteq> None
                then release_encoder (s2\<lparr>m_bufferAudioEncoder := None\<rparr>) else s2);
          s4 = (if m_desktopAudioSource s3 \<noteq> None
                then release_source (s3\<lparr>m_desktopAudioSource := None\<rparr>) else s3);
          s5 = (if m_microphoneSource s4 \<noteq> None
                then release_source (s4\<lparr>m_microphoneSource := None\<rparr>) else s4)
      in s5\<lparr>m_scene := False, m_obsInitialized := False\<rparr>)"

section \<open>The event loop\<close>

text \<open>
  Everything that can happen to the object between two returns to the event loop: a call
  of a public method, a queued engine notification, a timer, a single-shot closure, or
  the engine ending the activity of the output. A timer fires only while it is active and
  a closure runs only once it is scheduled; a method or a notification handler may run
  in any state, which allows more runs than the engine produces.
\<close>

datatype event =
    EvInitialize obs_env
  | EvShutdown
  | EvStart obs_env
  | EvStop
  | EvSave obs_env int int string
  | EvSaveClip obs_env int int string
  | EvSaved obs_env string
  | EvSaveClipTimeout
  | EvBufferStopped obs_env
  | EvBufferStopTimeout obs_env
  | EvSingleShot obs_env nat
  | EvEngineStopped
  | EvUpdateEncoding EncodingSettings
  | EvUpdateAudio AudioSettings
  | EvUpdateMicrophone MicrophoneSettings
  | EvSetBufferDuration int
  | EvSetGameCapture obs_env string string
  | EvClearCapture
  | EvSetOutputFolder string

definition fire_timer :: "QTimer \<Rightarrow> QTimer" where
  "fire_timer t = (if timer_singleShot t then t\<lparr>timer_active := False\<rparr> else t)"

fun step :: "event \<Rightarrow> GameCapture \<Rightarrow> GameCapture" where
  "step (EvInitialize env) s = snd (Initialize env s)"
| "step EvShutdown s = Shutdown s"
| "step (EvStart env) s = snd (StartClippingMode env s)"
| "step EvStop s = StopClippingMode s"
| "step (EvSave env now d f) s = snd (SaveInstantReplay env now d f s)"
| "step (EvSaveClip env now d f) s = snd (SaveClip env now d f s)"
| "step (EvSaved env path) s = handleReplayBufferSaved env path s"
| "step EvSaveClipTimeout s =
     (if timer_active (m_saveClipTimeoutTimer s)
      then onSaveClipTimeout (s\<lparr>m_saveClipTimeoutTimer := fire_timer (m_saveClipTimeoutTimer s)\<rparr>)
      else s)"
| "step (EvBufferStopped env) s = onBufferStopped env s"
| "step (EvBufferStopTimeout env) s =
     (if timer_active (m_bufferStopTimer s)
      then onBufferStopTimeout env (s\<lparr>m_bufferStopTimer := fire_timer (m_bufferStopTimer s)\<rparr>)
      else s)"
| "step (EvSingleShot env i) s =
     (if i < length (singleShots s)
      then run_singleShot env (singleShots s ! i)
             (s\<lparr>singleShots := take i (singleShots s) @ drop (Suc i) (singleShots s)\<rparr>)
      else s)"
| "step EvEngineStopped s =
     s\<lparr>m_bufferOutput := map_option obs_output_force_stop (m_bufferOutput s)\<rparr>"
| "step (EvUpdateEncoding settings) s = snd (UpdateEncodingSettings settings s)"
| "step (EvUpdateAudio settings) s = snd (UpdateAudioSettings settings s)"
| "step (EvUpdateMicrophone settings) s = snd (UpdateMicrophoneSettings settings s)"
| "step (EvSetBufferDuration seconds) s = SetBufferDuration seconds s"
| "step (EvSetGameCapture env exe stem) s = snd (SetGameCapture env exe stem s)"
| "step EvClearCapture s = ClearCapture s"
| "step (EvSetOutputFolder folder) s = SetOutputFolder folder s"

text \<open>Running a list of events from a state, the first event first.\<close>

definition run :: "event list \<Rightarrow> GameCapture \<Rightarrow> GameCapture" where
  "run evs s = foldl (\<lambda>t ev. step ev t) s evs"

text \<open>The states an object can be in: the constructor, followed by any events.\<close>

inductive reachable :: "GameCapture \<Rightarrow> bool" where
  reachable_new: "reachable (GameCapture_new now)"
| reachable_step: "reachable s \<Longrightarrow> reachable (step ev s)"

section \<open>Notions used in the statements\<close>

fun is_save :: "event \<Rightarrow> bool" where
  "is_save (EvSave env now d f) = True"
| "is_save (EvSaveClip env now d f) = True"
| "is_save _ = False"

text \<open>
  An engine and a file system in which every call succeeds; saved files are reported in
  the folder \<open>Clips/General\<close>.
\<close>

definition env_ok :: obs_env where
  "env_ok =
     \<lparr>env_startup = True,
      env_encoder_types = [''obs_x264'', ''ffmpeg_nvenc'', ''obs_qsv11''],
      env_validate = True,
      env_video_encoder_create = (\<lambda>_. True), env_video_encoder_fallback = True,
      env_audio_encoder_create = True, env_audio_source_create = True,
      env_mic_source_create = True, env_filter_create = True,
      env_game_source_create = True, env_output_create = True,
      env_output_signal_handler = True, env_output_proc_handler = True,
      env_output_start = True, env_save_proc = True,
      env_absolutePath = (\<lambda>_. ''Clips/General''), env_fileName = (\<lambda>p. p),
      env_rename = (\<lambda>_ _. True), env_exists = (\<lambda>_. True),
      env_latest_file = (\<lambda>_. None)\<rparr>"

text \<open>
  A session: the object is constructed when the clock reads 0, the output folder is
  set, the engine is initialized and clipping is started.
\<close>

definition demo_started :: GameCapture where
  "demo_started =
     run [EvSetOutputFolder ''Clips'', EvInitialize env_ok, EvStart env_ok] (GameCapture_new 0)"

text \<open>The same session after a save accepted when the clock reads 5000.\<close>

definition demo_saving :: GameCapture where
  "demo_saving = step (EvSave env_ok 5000 30 []) demo_started"

text \<open>
  The start of the cooldown clock and the configuration of the save timer: what the
  timing of saves depends on.
\<close>

definition timing :: "GameCapture \<Rightarrow> int \<times> int \<times> bool" where
  "timing s =
     (m_saveCooldownTimer s,
      timer_interval (m_saveClipTimeoutTimer s),
      timer_singleShot (m_saveClipTimeoutTimer s))"

text \<open>
  The engine counters of encoder and source creations and releases, and with them the
  encoder and source members: what a stop must leave alone.
\<close>

definition component_counters :: "obs_stats \<Rightarrow> nat \<times> nat \<times> nat \<times> nat \<times> nat \<times> nat" where
  "component_counters c =
     (CreateEncoder_calls c, CreateAudioEncoder_calls c, CreateAudioSource_calls c,
      CreateMicrophoneSource_calls c, encoder_release_calls c, source_release_calls c)"

definition persistent_components ::
  "GameCapture \<Rightarrow>
   obs_video_encoder option \<times> obs_encoder option \<times> obs_source option \<times> obs_source option \<times>
   nat \<times> nat \<times> nat \<times> nat \<times> nat \<times> nat" where
  "persistent_components s =
     (m_bufferVideoEncoder s, m_bufferAudioEncoder s, m_desktopAudioSource s,
      m_microphoneSource s, component_counters (obs s))"

text \<open>
  The session after a stop request, and after the engine has stopped the output and the
  notification has been handled.
\<close>

definition demo_stopping :: GameCapture where
  "demo_stopping = step EvStop demo_started"

definition demo_stopped :: GameCapture where
  "demo_stopped = run [EvEngineStopped, EvBufferStopped env_ok] demo_stopping"

text \<open>
  The started session with a fast reset pending: the closure scheduled by the start has
  run, a save is accepted when the clock reads 5000, the engine reports the file, and the
  closure scheduled by the saved handler requests the fast reset.
\<close>

definition demo_resetting :: GameCapture where
  "demo_resetting =
     run [EvSingleShot env_ok 0, EvSave env_ok 5000 30 [],
          EvSaved env_ok ''Clips/General/Replay.mp4'', EvSingleShot env_ok 0] demo_started"

text \<open>
  A start runs its recreation decisions when the engine is initialized and valid,
  clipping is off and the buffer is not active.
\<close>

definition setup_reached :: "obs_env \<Rightarrow> GameCapture \<Rightarrow> bool" where
  "setup_reached env s =
     (m_obsInitialized s \<and> \<not> m_clippingModeActive s \<and> env_validate env \<and>
      \<not> isActive (m_bufferState s))"

text \<open>
  What the decision on the video encoder reads and writes: the encoder member, the
  tracker of the encoding settings and the current encoding settings.
\<close>

definition video_view ::
  "GameCapture \<Rightarrow> obs_video_encoder option \<times> EncodingSettings \<times> EncodingSettings" where
  "video_view s =
     (m_bufferVideoEncoder s, lastEncodingSettings (m_bufferState s), m_encodingSettings s)"

text \<open>
  The tracker is exact when it holds the settings the video encoder of the manager was
  created with.
\<close>

definition tracker_exact :: "GameCapture \<Rightarrow> bool" where
  "tracker_exact s =
     (case m_bufferVideoEncoder s of
        None \<Rightarrow> True
      | Some e \<Rightarrow> encoder_created_with e = lastEncodingSettings (m_bufferState s))"

text \<open>
  An event is a failed start when it calls \<open>StartClippingMode\<close>, as a method or as the
  closure of a scheduled restart, and the call returns false.
\<close>

definition failed_start :: "event \<Rightarrow> GameCapture \<Rightarrow> bool" where
  "failed_start ev s =
     (case ev of
        EvStart env \<Rightarrow> \<not> fst (StartClippingMode env s)
      | EvSingleShot env i \<Rightarrow>
          i < length (singleShots s) \<and> singleShots s ! i = RestartClippingMode \<and>
          \<not> fst (StartClippingMode env
                   (s\<lparr>singleShots := take i (singleShots s) @ drop (Suc i) (singleShots s)\<rparr>))
      | _ \<Rightarrow> False)"

text \<open>An update of the audio settings that changes the volume field only.\<close>

definition volume_update :: "real \<Rightarrow> GameCapture \<Rightarrow> GameCapture" where
  "volume_update v s = snd (UpdateAudioSettings ((m_audioSettings s)\<lparr>audio_volume := v\<rparr>) s)"

text \<open>
  What the invariant of the buffer lifecycle reads: the encoders the output is attached
  to, the active flag, the number of output objects alive in the engine, and the serial
  numbers of the manager's encoders.
\<close>

type_synonym lifecycle_view =
  "(nat option \<times> nat option) option \<times> bool \<times> nat \<times> nat option \<times> nat option"

definition attachments :: "obs_output \<Rightarrow> nat option \<times> nat option" where
  "attachments p = (output_video_encoder p, output_audio_encoder p)"

definition lifecycle :: "GameCapture \<Rightarrow> lifecycle_view" where
  "lifecycle s =
     (map_option attachments (m_bufferOutput s), isActive (m_bufferState s),
      live_outputs (obs s),
      map_option encoder_serial (m_bufferVideoEncoder s),
      map_option encoder_serial (m_bufferAudioEncoder s))"

text \<open>
  The invariant: without the active flag there is no output object, in the member and in
  the engine; with it there is exactly one, and the manager holds a video encoder and an
  audio encoder, which are the encoders the output is attached to.
\<close>

definition lifecycle_ok :: "lifecycle_view \<Rightarrow> bool" where
  "lifecycle_ok v =
     (case v of (out, active, live, venc, aenc) \<Rightarrow>
        (case out of
           None \<Rightarrow> \<not> active \<and> live = 0
         | Some (ov, oa) \<Rightarrow>
             active \<and> live = 1 \<and> venc \<noteq> None \<and> aenc \<noteq> None \<and>
             ov = venc \<and> oa = aenc))"

definition buffer_invariant :: "GameCapture \<Rightarrow> bool" where
  "buffer_invariant s = lifecycle_ok (lifecycle s)"

text \<open>
  The states an object can be in when Shutdown is only ever called while the buffer state
  is not active.
\<close>

inductive reachable_orderly :: "GameCapture \<Rightarrow> bool" where
  orderly_new: "reachable_orderly (GameCapture_new now)"
| orderly_step:
    "reachable_orderly s \<Longrightarrow> ev \<noteq> EvShutdown \<or> \<not> isActive (m_bufferState s) \<Longrightarrow>
     reachable_orderly (step ev s)"

text \<open>The stages of a buffer setup, between the calls of SetupCircularBuffer.\<close>

definition idle :: "GameCapture \<Rightarrow> bool" where
  "idle s =
     (m_bufferOutput s = None \<and> \<not> isActive (m_bufferState s) \<and> live_outputs (obs s) = 0)"

definition created :: "bool \<Rightarrow> GameCapture \<Rightarrow> bool" where
  "created may_run s =
     (\<not> isActive (m_bufferState s) \<and> live_outputs (obs s) = 1 \<and>
      (case m_bufferOutput s of
         None \<Rightarrow> False
       | Some p \<Rightarrow>
           (may_run \<or> \<not> output_active p) \<and>
           (case (m_bufferVideoEncoder s, m_bufferAudioEncoder s) of
              (Some v, Some a) \<Rightarrow>
                attachments p = (Some (encoder_serial v), Some (encoder_serial a))
            | _ \<Rightarrow> False)))"

section \<open>Properties of the folder naming\<close>

lemma replace_invalid_map:
  "replace_invalid s = map (\<lambda>c. if c \<in> set invalidChars then CHR ''_'' else c) s"
  by (induction s) simp_all

lemma underscore_valid: "CHR ''_'' \<notin> set invalidChars"
  by (simp add: invalidChars_def)

lemma replace_invalid_clean: "set (replace_invalid s) \<inter> set invalidChars = {}"
  using underscore_valid by (induction s) auto

lemma trimmed_subset: "set (trimmed s) \<subseteq> set s"
proof
  fix x
  assume "x \<in> set (trimmed s)"
  then have "x \<in> set (dropWhile isSpace (rev (dropWhile isSpace s)))"
    by (simp add: trimmed_def)
  then have "x \<in> set (rev (dropWhile isSpace s))"
    by (rule set_dropWhileD)
  then have "x \<in> set (dropWhile isSpace s)"
    by simp
  then show "x \<in> set s"
    by (rule set_dropWhileD)
qed

lemma trimmed_hd: "trimmed s \<noteq> [] \<Longrightarrow> \<not> isSpace (hd (trimmed s))"
proof -
  assume ne: "trimmed s \<noteq> []"
  let ?d = "dropWhile isSpace s"
  let ?e = "dropWhile isSpace (rev ?d)"
  have e_ne: "?e \<noteq> []" using ne by (simp add: trimmed_def)
  have d_ne: "?d \<noteq> []"
  proof
    assume "?d = []"
    then have "?e = []" by (simp only: rev.simps dropWhile.simps)
    with e_ne show False by blast
  qed
  have "hd (trimmed s) = last ?e" using e_ne by (simp add: trimmed_def hd_rev)
  also have "\<dots> = last (rev ?d)"
    using e_ne by (metis last_appendR takeWhile_dropWhile_id)
  also have "\<dots> = hd ?d" using d_ne by (simp add: last_rev)
  finally have "hd (trimmed s) = hd ?d" .
  moreover have "\<not> isSpace (hd ?d)" using d_ne by (rule hd_dropWhile)
  ultimately show ?thesis by simp
qed

lemma trimmed_last: "trimmed s \<noteq> [] \<Longrightarrow> \<not> isSpace (last (trimmed s))"
proof -
  assume ne: "trimmed s \<noteq> []"
  let ?e = "dropWhile isSpace (rev (dropWhile isSpace s))"
  have e_ne: "?e \<noteq> []" using ne by (simp add: trimmed_def)
  have "last (trimmed s) = hd ?e" using e_ne by (simp add: trimmed_def last_rev)
  moreover have "\<not> isSpace (hd ?e)" using e_ne by (rule hd_dropWhile)
  ultimately show ?thesis by simp
qed

text \<open>
  C9. For every output root and raw game name the derived folder is the one the naming
  contract describes: \<open>root/General\<close> for an empty name, for \<open>Unknown\<close>, and for a name
  that is empty after sanitization; otherwise the root, a slash and the name, with every
  character of \<^verbatim>\<open><>:"/\|?*\<close> replaced by an underscore and the result trimmed, so
  that the folder segment is not empty, holds none of those characters and neither
  starts nor ends with white space. In particular \<open>My/Game:2\<close> gives
  \<open>root/My_Game_2\<close>.
\<close>

theorem GetPathForGameName_contract:
  "GetPathForGameName outRoot name = spec_folder outRoot name
   \<and> (name = [] \<or> name = ''Unknown'' \<or> spec_sanitized name = []
        \<longrightarrow> GetPathForGameName outRoot name = outRoot @ ''/General'')
   \<and> (\<not> (name = [] \<or> name = ''Unknown'' \<or> spec_sanitized name = [])
        \<longrightarrow> GetPathForGameName outRoot name = outRoot @ ''/'' @ spec_sanitized name
          \<and> set (spec_sanitized name) \<inter> set invalidChars = {}
          \<and> \<not> isSpace (hd (spec_sanitized name))
          \<and> \<not> isSpace (last (spec_sanitized name)))
   \<and> GetPathForGameName outRoot ''My/Game:2'' = outRoot @ ''/My_Game_2''
   \<and> GetPathForGameName outRoot '''' = outRoot @ ''/General''
   \<and> GetPathForGameName outRoot ''Unknown'' = outRoot @ ''/General''"
proof -
  have san: "spec_sanitized name = trimmed (replace_invalid name)"
    by (simp add: spec_sanitized_def replace_invalid_map)
  have eq: "GetPathForGameName outRoot name = spec_folder outRoot name"
    by (simp add: GetPathForGameName_def spec_folder_def san Let_def)
  have clean: "set (spec_sanitized name) \<inter> set invalidChars = {}"
    using trimmed_subset [of "replace_invalid name"] replace_invalid_clean [of name]
    unfolding san by blast
  have ex: "GetPathForGameName outRoot ''My/Game:2'' = outRoot @ ''/My_Game_2''"
    by (simp add: GetPathForGameName_def Let_def trimmed_def invalidChars_def isSpace_def)
  show ?thesis
    using eq clean ex trimmed_hd [of "replace_invalid name"]
      trimmed_last [of "replace_invalid name"]
    by (simp add: spec_folder_def san GetPathForGameName_def)
qed

theorem GetPathForGameName_contract_witness:
  "GetPathForGameName ''C:/Clips'' ''  a?b  '' = ''C:/Clips/a_b''
   \<and> GetPathForGameName ''C:/Clips'' ''   '' = ''C:/Clips/General''
   \<and> spec_sanitized ''   '' = []
   \<and> spec_sanitized ''  a?b  '' = ''a_b''"
proof -
  have a: "spec_sanitized ''   '' = []"
    by (simp add: spec_sanitized_def trimmed_def isSpace_def invalidChars_def)
  have b: "spec_sanitized ''  a?b  '' = ''a_b''"
    by (simp add: spec_sanitized_def trimmed_def isSpace_def invalidChars_def)
  show ?thesis
    using GetPathForGameName_contract [of "''C:/Clips''" "''   ''"]
      GetPathForGameName_contract [of "''C:/Clips''" "''  a?b  ''"] a b
    by (simp add: spec_folder_def)
qed

section \<open>What changes the timing of saves\<close>

lemma timing_update [simp]:
  "timing (m_obsInitialized_update f0 s) = timing s"
  "timing (m_isRecording_update f1 s) = timing s"
  "timing (m_clippingModeActive_update f2 s) = timing s"
  "timing (m_audioSettings_update f3 s) = timing s"
  "timing (m_microphoneSettings_update f4 s) = timing s"
  "timing (m_encodingSettings_update f5 s) = timing s"
  "timing (m_availableEncoders_update f6 s) = timing s"
  "timing (m_bufferState_update f7 s) = timing s"
  "timing (m_scene_update f8 s) = timing s"
  "timing (m_currentSource_update f9 s) = timing s"
  "timing (m_desktopAudioSource_update f10 s) = timing s"
  "timing (m_microphoneSource_update f11 s) = timing s"
  "timing (m_bufferOutput_update f12 s) = timing s"
  "timing (m_bufferVideoEncoder_update f13 s) = timing s"
  "timing (m_bufferAudioEncoder_update f14 s) = timing s"
  "timing (m_bufferStopTimer_update f15 s) = timing s"
  "timing (m_pendingBufferCallback_update f16 s) = timing s"
  "timing (m_currentRecordingFile_update f17 s) = timing s"
  "timing (m_outputFolder_update f18 s) = timing s"
  "timing (m_currentGameName_update f19 s) = timing s"
  "timing (m_cachedGameFolder_update f20 s) = timing s"
  "timing (m_bufferDurationSeconds_update f21 s) = timing s"
  "timing (singleShots_update f22 s) = timing s"
  "timing (emitted_update f23 s) = timing s"
  "timing (obs_update f24 s) = timing s"
  by (simp_all add: timing_def)

lemma timing_save_timer [simp]:
  "timing s' = timing s \<Longrightarrow>
   timing (m_saveClipTimeoutTimer_update (\<lambda>_. timer_start (m_saveClipTimeoutTimer s')) s)
     = timing s"
  "timing s' = timing s \<Longrightarrow>
   timing (m_saveClipTimeoutTimer_update (\<lambda>_. timer_stop (m_saveClipTimeoutTimer s')) s)
     = timing s"
  "timing s' = timing s \<Longrightarrow>
   timing (m_saveClipTimeoutTimer_update (\<lambda>_. fire_timer (m_saveClipTimeoutTimer s')) s)
     = timing s"
  by (simp_all add: timing_def timer_start_def timer_stop_def fire_timer_def)

lemma cooldown_of_timing: "m_saveCooldownTimer s = fst (timing s)"
  by (simp add: timing_def)

lemma tm_emit [simp]: "timing (emit x s) = timing s"
  by (simp add: emit_def)
lemma tm_singleShot [simp]: "timing (singleShot x s) = timing s"
  by (simp add: singleShot_def)
lemma tm_release_encoder [simp]: "timing (release_encoder s) = timing s"
  by (simp add: release_encoder_def)
lemma tm_release_source [simp]: "timing (release_source s) = timing s"
  by (simp add: release_source_def)
lemma tm_CreateEncoder [simp]:
  "timing (snd (CreateEncoder env x s)) = timing s"
  by (simp add: CreateEncoder_def Let_def)
lemma tm_CreateAudioEncoder [simp]:
  "timing (snd (CreateAudioEncoder env s)) = timing s"
  by (simp add: CreateAudioEncoder_def Let_def)
lemma tm_CreateAudioSource [simp]:
  "timing (snd (CreateAudioSource env s)) = timing s"
  by (simp add: CreateAudioSource_def Let_def)
lemma tm_CreateMicrophoneSource [simp]:
  "timing (snd (CreateMicrophoneSource env s)) = timing s"
  by (simp add: CreateMicrophoneSource_def Let_def)
lemma tm_UpdateBufferVideoEncoder [simp]:
  "timing (snd (UpdateBufferVideoEncoder env s)) = timing s"
  by (simp add: UpdateBufferVideoEncoder_def Let_def split_def split: option.splits)
lemma tm_rda [simp]:
  "timing (recreate_desktop_audio_source env b s) = timing s"
  by (simp add: recreate_desktop_audio_source_def Let_def split_def)
lemma tm_ada [simp]:
  "timing (apply_desktop_audio_settings s) = timing s"
  by (simp add: apply_desktop_audio_settings_def split: option.splits)
lemma tm_rms [simp]:
  "timing (recreate_microphone_source env b s) = timing s"
  by (simp add: recreate_microphone_source_def Let_def split_def)
lemma tm_ams [simp]:
  "timing (apply_microphone_settings env s) = timing s"
  by (simp add: apply_microphone_settings_def split: option.splits)
lemma tm_rae [simp]:
  "timing (snd (recreate_audio_encoder env b s)) = timing s"
  by (simp add: recreate_audio_encoder_def Let_def split_def)
lemma tm_UpdateBufferAudioComponents [simp]:
  "timing (snd (UpdateBufferAudioComponents env s)) = timing s"
  by (simp add: UpdateBufferAudioComponents_def Let_def)
lemma tm_disconnect [simp]:
  "timing (disconnectReplayBufferSignals s) = timing s"
  by (simp add: disconnectReplayBufferSignals_def split: option.splits)
lemma tm_complete [simp]:
  "timing (completeBufferCleanup s) = timing s"
  by (simp add: completeBufferCleanup_def Let_def split: option.splits)
lemma tm_Cleanup [simp]:
  "timing (CleanupCircularBuffer s) = timing s"
  by (simp add: CleanupCircularBuffer_def Let_def split: option.splits)
lemma tm_GetCurrentGameFolder [simp]:
  "timing (snd (GetCurrentGameFolder s)) = timing s"
  by (simp add: GetCurrentGameFolder_def Let_def)
lemma tm_UpdateBufferOutputDirectory [simp]:
  "timing (UpdateBufferOutputDirectory s) = timing s"
  by (simp add: UpdateBufferOutputDirectory_def Let_def split_def split: option.splits)
lemma tm_UpdateBufferSettings [simp]:
  "timing (snd (UpdateBufferSettings s)) = timing s"
  by (simp add: UpdateBufferSettings_def split: option.splits)
lemma tm_CreateBufferOutput [simp]:
  "timing (snd (CreateBufferOutput env s)) = timing s"
  by (simp add: CreateBufferOutput_def Let_def split_def split: option.splits)
lemma tm_StartBufferOutput [simp]:
  "timing (snd (StartBufferOutput env s)) = timing s"
  by (simp add: StartBufferOutput_def Let_def split_def split: option.splits)
lemma tm_SetupCircularBuffer [simp]:
  "timing (snd (SetupCircularBuffer env s)) = timing s"
  by (simp add: SetupCircularBuffer_def Let_def split_def)
lemma tm_StartClippingMode [simp]:
  "timing (snd (StartClippingMode env s)) = timing s"
  by (simp add: StartClippingMode_def Let_def split_def)
lemma tm_StopClippingMode [simp]:
  "timing (StopClippingMode s) = timing s"
  by (simp add: StopClippingMode_def Let_def)
lemma tm_onSaveClipTimeout [simp]:
  "timing (onSaveClipTimeout s) = timing s"
  by (simp add: onSaveClipTimeout_def Let_def)
lemma tm_FastBufferReset [simp]:
  "timing (snd (FastBufferReset s)) = timing s"
  by (simp add: FastBufferReset_def split: option.splits)
lemma tm_run_pending [simp]:
  "timing (run_pending env cb s) = timing s"
  by (simp add: run_pending_def Let_def split_def split: pending_callback.splits)
lemma tm_onBufferStopped [simp]:
  "timing (onBufferStopped env s) = timing s"
  by (simp add: onBufferStopped_def Let_def split: option.splits)
lemma tm_onBufferStopTimeout [simp]:
  "timing (onBufferStopTimeout env s) = timing s"
  by (simp add: onBufferStopTimeout_def Let_def split: option.splits)
lemma tm_handleReplayBufferSaved [simp]:
  "timing (handleReplayBufferSaved env path s) = timing s"
  by (simp add: handleReplayBufferSaved_def Let_def split_def)
lemma tm_run_singleShot [simp]:
  "timing (run_singleShot env f s) = timing s"
  by (simp add: run_singleShot_def Let_def split_def split: single_shot.splits)
lemma tm_ClearCapture [simp]:
  "timing (ClearCapture s) = timing s"
  by (simp add: ClearCapture_def split: option.splits)
lemma tm_Initialize [simp]:
  "timing (snd (Initialize env s)) = timing s"
  by (simp add: Initialize_def DetectAvailableEncoders_def Let_def split_def)
lemma tm_Shutdown [simp]:
  "timing (Shutdown s) = timing s"
  by (simp add: Shutdown_def Let_def)
lemma tm_SetGameCapture [simp]:
  "timing (snd (SetGameCapture env exe stem s)) = timing s"
  by (simp add: SetGameCapture_def Let_def)
lemma tm_Update [simp]:
  "timing (snd (UpdateEncodingSettings es s)) = timing s"
  "timing (snd (UpdateAudioSettings au s)) = timing s"
  "timing (snd (UpdateMicrophoneSettings mi s)) = timing s"
  "timing (SetBufferDuration d s) = timing s"
  "timing (SetOutputFolder f s) = timing s"
  by (simp_all add: UpdateEncodingSettings_def UpdateAudioSettings_def UpdateMicrophoneSettings_def
      SetBufferDuration_def SetOutputFolder_def Let_def split: option.splits)

lemma tm_step: "\<not> is_save ev \<Longrightarrow> timing (step ev s) = timing s"
  by (cases ev) simp_all

lemma tm_SaveInstantReplay [simp]:
  "snd (timing (snd (SaveInstantReplay env now d f s))) = snd (timing s)"
proof -
  have upd: "snd (timing (m_saveCooldownTimer_update g t)) = snd (timing t)" for g t
    by (simp add: timing_def)
  show ?thesis
    by (simp add: SaveInstantReplay_def Let_def upd split: option.splits)
qed

lemma tm_SaveClip [simp]:
  "snd (timing (snd (SaveClip env now d f s))) = snd (timing s)"
  by (simp add: SaveClip_def)




lemma tm_run:
  "\<forall>ev\<in>set evs. \<not> is_save ev \<Longrightarrow> timing (run evs s) = timing s"
  unfolding run_def by (induction evs arbitrary: s) (simp_all add: tm_step)

section \<open>Evaluated sessions\<close>

lemmas demo_defs =
  demo_started_def demo_saving_def run_def env_ok_def GameCapture_new_def Initialize_def
  StartClippingMode_def SetupCircularBuffer_def ValidateOBSState_def
  UpdateBufferVideoEncoder_def UpdateBufferAudioComponents_def
  recreate_desktop_audio_source_def apply_desktop_audio_settings_def
  recreate_microphone_source_def apply_microphone_settings_def recreate_audio_encoder_def
  CreateBufferOutput_def StartBufferOutput_def CleanupCircularBuffer_def
  completeBufferCleanup_def disconnectReplayBufferSignals_def CreateEncoder_def
  CreateAudioEncoder_def CreateAudioSource_def CreateMicrophoneSource_def
  DetectAvailableEncoders_def encoder_map_def BufferState_reset_def hasEncodingChanges_def
  EncodingSettings_eq_def EncodingSettings_default_def AudioSettings_default_def
  MicrophoneSettings_default_def GetCurrentGameFolder_def GetPathForGameName_def
  obs_output_start_def obs_output_stop_def obs_output_force_stop_def connect_stop_def
  disconnect_stop_def emit_def singleShot_def release_encoder_def release_source_def
  apply_noise_suppression_def UpdateBufferSettings_def StopClippingMode_def
  SaveInstantReplay_def SAVE_COOLDOWN_MS_def timer_start_def timer_stop_def fire_timer_def
  SetOutputFolder_def SetBufferDuration_def UpdateEncodingSettings_def
  UpdateAudioSettings_def handleReplayBufferSaved_def onSaveClipTimeout_def
  onBufferStopped_def onBufferStopTimeout_def run_pending_def run_singleShot_def
  FastBufferReset_def List.map_filter_def Let_def

lemma demo_started_eval:
  "demo_started =
     \<lparr>m_obsInitialized = True, m_isRecording = False, m_clippingModeActive = True,
      m_audioSettings = AudioSettings_default,
      m_microphoneSettings = MicrophoneSettings_default,
      m_encodingSettings = EncodingSettings_default,
      m_availableEncoders =
        [\<lparr>info_type = X264, info_id = ''obs_x264'', info_name = ''Software (x264)''\<rparr>,
         \<lparr>info_type = NVENC_H264, info_id = ''ffmpeg_nvenc'',
          info_name = ''NVIDIA NVENC H.264''\<rparr>,
         \<lparr>info_type = QSV_H264, info_id = ''obs_qsv11'',
          info_name = ''Intel Quick Sync (QSV) H.264''\<rparr>],
      m_bufferState =
        \<lparr>isActive = True, lastEncodingSettings = EncodingSettings_default,
         lastAudioSettings = AudioSettings_default,
         lastMicrophoneSettings = MicrophoneSettings_default, lastBufferDuration = 60\<rparr>,
      m_scene = True, m_currentSource = None,
      m_desktopAudioSource =
        Some \<lparr>source_serial = 1, source_device_id = ''default'', source_volume = 1,
              source_enabled = True, source_filter = None\<rparr>,
      m_microphoneSource = None,
      m_bufferOutput =
        Some \<lparr>output_serial = 1, output_active = True, output_stopping = False,
              output_video_encoder = Some 1, output_audio_encoder = Some 1,
              output_signal_handler = True, output_proc_handler = True,
              output_stop_connected = False, output_saved_connected = False,
              output_stop_connects = 0, output_stop_requests = 0,
              output_max_time_sec = 60, output_directory = ''Clips/General''\<rparr>,
      m_bufferVideoEncoder =
        Some \<lparr>encoder_serial = 1, encoder_id = ''obs_x264'',
              encoder_created_with = EncodingSettings_default\<rparr>,
      m_bufferAudioEncoder = Some \<lparr>encoder_serial = 1, encoder_id = ''ffmpeg_aac''\<rparr>,
      m_bufferStopTimer =
        \<lparr>timer_interval = 3000, timer_singleShot = True, timer_active = False\<rparr>,
      m_saveClipTimeoutTimer =
        \<lparr>timer_interval = 30000, timer_singleShot = True, timer_active = False\<rparr>,
      m_pendingBufferCallback = None, m_saveCooldownTimer = 0,
      m_currentRecordingFile = [], m_outputFolder = ''Clips'', m_currentGameName = [],
      m_cachedGameFolder = ''Clips/General'', m_bufferDurationSeconds = 60,
      singleShots = [ReapplyEncoderSettings], emitted = [clippingModeChanged True],
      obs = \<lparr>CreateEncoder_calls = 1, CreateAudioEncoder_calls = 1,
             CreateAudioSource_calls = 1, CreateMicrophoneSource_calls = 0,
             output_create_calls = 1, encoder_release_calls = 0,
             source_release_calls = 0, live_outputs = 1\<rparr>\<rparr>"
  by (simp add: demo_defs)

lemmas eval_defs =
  env_ok_def StartClippingMode_def SetupCircularBuffer_def ValidateOBSState_def
  UpdateBufferVideoEncoder_def UpdateBufferAudioComponents_def
  recreate_desktop_audio_source_def apply_desktop_audio_settings_def
  recreate_microphone_source_def apply_microphone_settings_def recreate_audio_encoder_def
  CreateBufferOutput_def StartBufferOutput_def CleanupCircularBuffer_def
  completeBufferCleanup_def disconnectReplayBufferSignals_def CreateEncoder_def
  CreateAudioEncoder_def CreateAudioSource_def CreateMicrophoneSource_def
  hasEncodingChanges_def EncodingSettings_eq_def GetCurrentGameFolder_def
  obs_output_start_def obs_output_stop_def obs_output_force_stop_def connect_stop_def
  disconnect_stop_def emit_def singleShot_def release_encoder_def release_source_def
  apply_noise_suppression_def UpdateBufferSettings_def StopClippingMode_def
  SaveInstantReplay_def SAVE_COOLDOWN_MS_def timer_start_def timer_stop_def fire_timer_def
  SetOutputFolder_def SetBufferDuration_def UpdateEncodingSettings_def
  UpdateAudioSettings_def handleReplayBufferSaved_def onSaveClipTimeout_def
  onBufferStopped_def onBufferStopTimeout_def run_pending_def run_singleShot_def
  FastBufferReset_def Let_def


lemma demo_stopping_eval:
  "demo_stopping =
     demo_started
       \<lparr>m_clippingModeActive := False,
        m_bufferOutput :=
          Some \<lparr>output_serial = 1, output_active = True, output_stopping = True,
                output_video_encoder = Some 1, output_audio_encoder = Some 1,
                output_signal_handler = True, output_proc_handler = True,
                output_stop_connected = True, output_saved_connected = False,
                output_stop_connects = 1, output_stop_requests = 1,
                output_max_time_sec = 60, output_directory = ''Clips/General''\<rparr>,
        m_bufferStopTimer :=
          \<lparr>timer_interval = 3000, timer_singleShot = True, timer_active = True\<rparr>,
        m_pendingBufferCallback := Some CleanupCallback,
        emitted := [clippingModeChanged True, clippingModeChanged False]\<rparr>"
  by (simp add: demo_stopping_def demo_started_eval eval_defs)

lemma demo_stopped_eval:
  "demo_stopped =
     demo_started
       \<lparr>m_clippingModeActive := False,
        m_bufferState :=
          \<lparr>isActive = False, lastEncodingSettings = EncodingSettings_default,
           lastAudioSettings = AudioSettings_default,
           lastMicrophoneSettings = MicrophoneSettings_default, lastBufferDuration = 60\<rparr>,
        m_bufferOutput := None,
        emitted := [clippingModeChanged True, clippingModeChanged False],
        obs := \<lparr>CreateEncoder_calls = 1, CreateAudioEncoder_calls = 1,
                CreateAudioSource_calls = 1, CreateMicrophoneSource_calls = 0,
                output_create_calls = 1, encoder_release_calls = 0,
                source_release_calls = 0, live_outputs = 0\<rparr>\<rparr>"
  by (simp add: demo_stopped_def run_def demo_stopping_eval demo_started_eval eval_defs)

section \<open>Save cooldown\<close>

lemma SaveInstantReplay_on_cooldown:
  "now - m_saveCooldownTimer s < SAVE_COOLDOWN_MS \<Longrightarrow>
   SaveInstantReplay env now d f s = (False, s)"
  by (simp add: SaveInstantReplay_def)

lemma SaveInstantReplay_accepted_restarts:
  "fst (SaveInstantReplay env now d f s) \<Longrightarrow>
   m_saveCooldownTimer (snd (SaveInstantReplay env now d f s)) = now"
  by (auto simp add: SaveInstantReplay_def Let_def emit_def disconnectReplayBufferSignals_def
      split: option.splits if_splits)

text \<open>
  C10. The cooldown clock starts in the constructor. Let the object be constructed when
  the clock reads \<open>t0\<close>, and let any events other than save calls follow. A call of
  SaveInstantReplay that comes less than 2000 ms after the construction is rejected at
  once, with the whole state unchanged, although no save was attempted before. The
  constructor stores \<open>t0\<close> as the start of the cooldown timer.
\<close>

theorem cooldown_starts_at_construction:
  assumes "\<forall>ev \<in> set evs. \<not> is_save ev"
    and "now - t0 < 2000"
  shows "m_saveCooldownTimer (GameCapture_new t0) = t0
    \<and> SaveInstantReplay env now d f (run evs (GameCapture_new t0))
        = (False, run evs (GameCapture_new t0))"
proof -
  have start: "m_saveCooldownTimer (GameCapture_new t0) = t0"
    by (simp add: GameCapture_new_def)
  have "m_saveCooldownTimer (run evs (GameCapture_new t0)) = t0"
    using assms(1) start by (simp add: cooldown_of_timing tm_run)
  then have "now - m_saveCooldownTimer (run evs (GameCapture_new t0)) < SAVE_COOLDOWN_MS"
    using assms(2) by (simp add: SAVE_COOLDOWN_MS_def)
  then show ?thesis
    using start by (simp add: SaveInstantReplay_on_cooldown)
qed

text \<open>
  In the session above the buffer runs and nothing is being saved: a save when the clock
  reads 1999 is rejected, and the same call when it reads 2000 is accepted, so the
  rejection is the cooldown's.
\<close>

theorem cooldown_starts_at_construction_witness:
  "SaveInstantReplay env_ok 1999 30 [] demo_started = (False, demo_started)
   \<and> fst (SaveInstantReplay env_ok 2000 30 [] demo_started)"
proof -
  have a: "\<forall>ev \<in> set [EvSetOutputFolder ''Clips'', EvInitialize env_ok, EvStart env_ok].
             \<not> is_save ev"
    by simp
  have b: "(1999::int) - 0 < 2000" by simp
  have c: "fst (SaveInstantReplay env_ok 2000 30 [] demo_started)"
    by (simp add: demo_started_eval eval_defs)
  show ?thesis
    using cooldown_starts_at_construction [OF a b, of env_ok 30 "[]"] c
    by (simp add: demo_started_def)
qed

text \<open>
  C4, as stated, fails. In the session above the object is constructed at time 0 and
  clipping mode is on. A Save call at 1900 is rejected, because the cooldown clock started
  by the constructor has not reached 2000, and it leaves the state unchanged. A second
  Save call at 2100, with nothing in between, is accepted: the two calls are 200 ms apart
  and it is the second, not the first, that is accepted.
\<close>

theorem save_pair_counterexample:
  "SaveInstantReplay env_ok 1900 30 [] demo_started = (False, demo_started)
   \<and> fst (SaveInstantReplay env_ok 2100 30 []
            (snd (SaveInstantReplay env_ok 1900 30 [] demo_started)))"
  by (simp add: demo_started_eval eval_defs)

text \<open>
  C4, amended. When a save call is accepted at clock reading \<open>t1\<close>, every save call that
  follows it less than 2000 ms later, with any events other than save calls in between,
  is rejected at once and leaves the whole state as it was: no handler is registered, no
  timer is started and no signal is emitted. So of the two calls exactly one, the first,
  is accepted.
\<close>

theorem save_cooldown_rejects_second:
  assumes "SaveInstantReplay env1 t1 d1 f1 s = (True, s1)"
    and "\<forall>ev \<in> set evs. \<not> is_save ev"
    and "t2 - t1 < 2000"
  shows "SaveInstantReplay env2 t2 d2 f2 (run evs s1) = (False, run evs s1)"
proof -
  have "m_saveCooldownTimer s1 = t1"
    using SaveInstantReplay_accepted_restarts [of env1 t1 d1 f1 s] assms(1) by simp
  then have "m_saveCooldownTimer (run evs s1) = t1"
    using assms(2) by (simp add: cooldown_of_timing tm_run)
  then have "t2 - m_saveCooldownTimer (run evs s1) < SAVE_COOLDOWN_MS"
    using assms(3) by (simp add: SAVE_COOLDOWN_MS_def)
  then show ?thesis
    by (rule SaveInstantReplay_on_cooldown)
qed

theorem save_cooldown_rejects_second_witness:
  "SaveInstantReplay env_ok 5000 30 [] demo_started = (True, demo_saving)
   \<and> SaveInstantReplay env_ok 6999 30 [] (run [EvSetBufferDuration 30] demo_saving)
       = (False, run [EvSetBufferDuration 30] demo_saving)"
proof -
  have a: "SaveInstantReplay env_ok 5000 30 [] demo_started = (True, demo_saving)"
    by (simp add: demo_saving_def prod_eq_iff) (simp add: demo_started_eval eval_defs)
  have b: "\<forall>ev \<in> set [EvSetBufferDuration 30]. \<not> is_save ev" by simp
  have c: "(6999::int) - 5000 < 2000" by simp
  show ?thesis
    using save_cooldown_rejects_second [OF a b c, of env_ok 30 "[]"] a by simp
qed

section \<open>Fast reset\<close>

text \<open>
  The guard of \<open>FastBufferReset\<close>. The pending stop or reset continuation lives in the one
  slot \<open>m_pendingBufferCallback\<close>. A fast reset requested while the slot is occupied is
  refused at once and changes nothing: it connects no stop handler, starts no timer and
  requests no stop. An accepted fast reset occupies the slot, so a second one right
  after it is refused.
\<close>

lemma FastBufferReset_guard:
  "(m_pendingBufferCallback s \<noteq> None \<longrightarrow> FastBufferReset s = (False, s))
   \<and> (fst (FastBufferReset s) \<longrightarrow>
        m_pendingBufferCallback (snd (FastBufferReset s)) = Some FastResetCallback
        \<and> FastBufferReset (snd (FastBufferReset s)) = (False, snd (FastBufferReset s)))"
  by (simp add: FastBufferReset_def obs_output_stop_def connect_stop_def
      split: option.splits)

text \<open>
  In the session with a fast reset pending, a second fast reset is refused.
\<close>

lemma second_fast_reset_refused:
  "m_pendingBufferCallback demo_resetting = Some FastResetCallback
   \<and> FastBufferReset demo_resetting = (False, demo_resetting)"
proof -
  have "m_pendingBufferCallback demo_resetting = Some FastResetCallback"
    by code_simp
  then show ?thesis
    using FastBufferReset_guard [of demo_resetting] by simp
qed


text \<open>
  The same happens without a call from outside. A second save is accepted while the
  reset is pending and the engine reports its file; the closure scheduled by the saved
  handler finds its fast reset refused and falls back to \<open>StopClippingMode\<close>, with the
  same effect on output 1. The restart it schedules then finds the buffer state still
  active and turns clipping on again, and the cleanup continuation releases the output
  afterwards: clipping is on with no buffer.
\<close>

lemma refused_fast_reset_falls_back_to_stop:
  "m_pendingBufferCallback
     (run [EvSave env_ok 7100 30 [], EvSaved env_ok ''Clips/General/Replay.mp4'']
        demo_resetting) = Some FastResetCallback
   \<and> m_pendingBufferCallback
       (run [EvSave env_ok 7100 30 [], EvSaved env_ok ''Clips/General/Replay.mp4'',
             EvSingleShot env_ok 0] demo_resetting) = Some CleanupCallback
   \<and> map_option output_stop_connects
       (m_bufferOutput
          (run [EvSave env_ok 7100 30 [], EvSaved env_ok ''Clips/General/Replay.mp4'',
                EvSingleShot env_ok 0] demo_resetting)) = Some 2
   \<and> map_option output_stop_requests
       (m_bufferOutput
          (run [EvSave env_ok 7100 30 [], EvSaved env_ok ''Clips/General/Replay.mp4'',
                EvSingleShot env_ok 0] demo_resetting)) = Some 2
   \<and> m_clippingModeActive
       (run [EvSave env_ok 7100 30 [], EvSaved env_ok ''Clips/General/Replay.mp4'',
             EvSingleShot env_ok 0, EvSingleShot env_ok 0, EvEngineStopped,
             EvBufferStopped env_ok] demo_resetting)
   \<and> m_bufferOutput
       (run [EvSave env_ok 7100 30 [], EvSaved env_ok ''Clips/General/Replay.mp4'',
             EvSingleShot env_ok 0, EvSingleShot env_ok 0, EvEngineStopped,
             EvBufferStopped env_ok] demo_resetting) = None"
  by code_simp

section \<open>Stop keeps the encoders and the sources\<close>

lemma pc_update [simp]:
  "persistent_components (m_obsInitialized_update f0 s) = persistent_components s"
  "persistent_components (m_isRecording_update f1 s) = persistent_components s"
  "persistent_components (m_clippingModeActive_update f2 s) = persistent_components s"
  "persistent_components (m_audioSettings_update f3 s) = persistent_components s"
  "persistent_components (m_microphoneSettings_update f4 s) = persistent_components s"
  "persistent_components (m_encodingSettings_update f5 s) = persistent_components s"
  "persistent_components (m_availableEncoders_update f6 s) = persistent_components s"
  "persistent_components (m_bufferState_update f7 s) = persistent_components s"
  "persistent_components (m_scene_update f8 s) = persistent_components s"
  "persistent_components (m_currentSource_update f9 s) = persistent_components s"
  "persistent_components (m_bufferOutput_update f12 s) = persistent_components s"
  "persistent_components (m_bufferStopTimer_update f15 s) = persistent_components s"
  "persistent_components (m_saveClipTimeoutTimer_update f16 s) = persistent_components s"
  "persistent_components (m_pendingBufferCallback_update f17 s) = persistent_components s"
  "persistent_components (m_saveCooldownTimer_update f18 s) = persistent_components s"
  "persistent_components (m_currentRecordingFile_update f19 s) = persistent_components s"
  "persistent_components (m_outputFolder_update f20 s) = persistent_components s"
  "persistent_components (m_currentGameName_update f21 s) = persistent_components s"
  "persistent_components (m_cachedGameFolder_update f22 s) = persistent_components s"
  "persistent_components (m_bufferDurationSeconds_update f23 s) = persistent_components s"
  "persistent_components (singleShots_update f24 s) = persistent_components s"
  "persistent_components (emitted_update f25 s) = persistent_components s"
  by (simp_all add: persistent_components_def)

lemma component_counters_update [simp]:
  "component_counters (live_outputs_update g c) = component_counters c"
  "component_counters (output_create_calls_update h c) = component_counters c"
  by (simp_all add: component_counters_def)

lemma pc_obs [simp]:
  "component_counters (g (obs s)) = component_counters (obs s) \<Longrightarrow>
   persistent_components (obs_update g s) = persistent_components s"
  by (simp add: persistent_components_def)

lemma pc_emit [simp]: "persistent_components (emit x s) = persistent_components s"
  by (simp add: emit_def)

lemma pc_singleShot [simp]: "persistent_components (singleShot x s) = persistent_components s"
  by (simp add: singleShot_def)

lemma pc_disconnect [simp]:
  "persistent_components (disconnectReplayBufferSignals s) = persistent_components s"
  by (simp add: disconnectReplayBufferSignals_def split: option.splits)

lemma pc_complete [simp]:
  "persistent_components (completeBufferCleanup s) = persistent_components s"
  by (simp add: completeBufferCleanup_def Let_def split: option.splits)

lemma pc_Cleanup [simp]:
  "persistent_components (CleanupCircularBuffer s) = persistent_components s"
  by (simp add: CleanupCircularBuffer_def Let_def split: option.splits)

lemma pc_Stop [simp]:
  "persistent_components (StopClippingMode s) = persistent_components s"
  by (simp add: StopClippingMode_def Let_def)

lemma pc_run_pending [simp]:
  "persistent_components (run_pending env cb s) = persistent_components s"
  by (simp add: run_pending_def Let_def split_def split: pending_callback.splits)

lemma pc_onBufferStopped [simp]:
  "persistent_components (onBufferStopped env s) = persistent_components s"
  by (simp add: onBufferStopped_def Let_def split: option.splits)

lemma pc_onBufferStopTimeout [simp]:
  "persistent_components (onBufferStopTimeout env s) = persistent_components s"
  by (simp add: onBufferStopTimeout_def Let_def split: option.splits)

lemma Stop_output:
  "m_clippingModeActive s \<Longrightarrow>
   (case m_bufferOutput (StopClippingMode s) of
      None \<Rightarrow> \<not> isActive (m_bufferState (StopClippingMode s))
    | Some p \<Rightarrow> output_active p \<and> output_stopping p
        \<and> m_pendingBufferCallback (StopClippingMode s) = Some CleanupCallback
        \<and> timer_active (m_bufferStopTimer (StopClippingMode s)))"
  by (simp add: StopClippingMode_def CleanupCircularBuffer_def completeBufferCleanup_def
      disconnectReplayBufferSignals_def emit_def obs_output_stop_def connect_stop_def
      timer_start_def Let_def split: option.splits)

lemma Cleanup_continuation_output:
  "m_pendingBufferCallback s = Some CleanupCallback \<Longrightarrow>
   m_bufferOutput (onBufferStopped env s) = None
   \<and> m_bufferOutput (onBufferStopTimeout env s) = None
   \<and> \<not> isActive (m_bufferState (onBufferStopped env s))
   \<and> \<not> isActive (m_bufferState (onBufferStopTimeout env s))"
  by (simp add: onBufferStopped_def onBufferStopTimeout_def run_pending_def
      completeBufferCleanup_def Let_def split: option.splits)

text \<open>
  C6. Stop leaves the video encoder, the audio encoder, the desktop audio source and the
  microphone source members as they are, and releases and creates no encoder and no
  source, whatever the state; so do the two handlers that complete an asynchronous stop. If clipping was
  on, Stop either has released the buffer output already, or the output is still active
  with the cleanup continuation pending; that continuation releases the output.
\<close>

theorem Stop_releases_only_the_output:
  "persistent_components (StopClippingMode s) = persistent_components s
   \<and> persistent_components (onBufferStopped env s) = persistent_components s
   \<and> persistent_components (onBufferStopTimeout env s) = persistent_components s
   \<and> (m_clippingModeActive s \<longrightarrow>
        (case m_bufferOutput (StopClippingMode s) of
           None \<Rightarrow> \<not> isActive (m_bufferState (StopClippingMode s))
         | Some p \<Rightarrow> output_active p \<and> output_stopping p
             \<and> m_pendingBufferCallback (StopClippingMode s) = Some CleanupCallback
             \<and> timer_active (m_bufferStopTimer (StopClippingMode s))))
   \<and> (m_pendingBufferCallback s = Some CleanupCallback \<longrightarrow>
        m_bufferOutput (onBufferStopped env s) = None
        \<and> m_bufferOutput (onBufferStopTimeout env s) = None)"
  using Stop_output [of s] Cleanup_continuation_output [of s env] by simp

text \<open>
  In the session above Stop goes the asynchronous way. When the engine has stopped the
  output and the notification is handled, the output is gone and the encoders and the
  desktop source are the objects created by the first start; a second start then
  creates a new output and nothing else.
\<close>

theorem Stop_releases_only_the_output_witness:
  "persistent_components (StopClippingMode demo_started) = persistent_components demo_started
   \<and> m_pendingBufferCallback (StopClippingMode demo_started) = Some CleanupCallback
   \<and> m_bufferOutput (onBufferStopped env_ok (StopClippingMode demo_started)) = None
   \<and> persistent_components (onBufferStopped env_ok (StopClippingMode demo_started))
       = persistent_components demo_started
   \<and> obs (run [EvStop, EvEngineStopped, EvBufferStopped env_ok, EvStart env_ok] demo_started)
       = \<lparr>CreateEncoder_calls = 1, CreateAudioEncoder_calls = 1,
          CreateAudioSource_calls = 1, CreateMicrophoneSource_calls = 0,
          output_create_calls = 2, encoder_release_calls = 0,
          source_release_calls = 0, live_outputs = 1\<rparr>"
proof -
  have a: "m_clippingModeActive demo_started"
    by (simp add: demo_started_eval)
  have b: "m_pendingBufferCallback (StopClippingMode demo_started) = Some CleanupCallback"
    by (simp add: demo_started_eval eval_defs)
  have c: "obs (run [EvStop, EvEngineStopped, EvBufferStopped env_ok, EvStart env_ok]
                  demo_started)
       = \<lparr>CreateEncoder_calls = 1, CreateAudioEncoder_calls = 1,
          CreateAudioSource_calls = 1, CreateMicrophoneSource_calls = 0,
          output_create_calls = 2, encoder_release_calls = 0,
          source_release_calls = 0, live_outputs = 1\<rparr>"
    by code_simp
  show ?thesis
    using Stop_releases_only_the_output [of demo_started env_ok]
      Stop_releases_only_the_output [of "StopClippingMode demo_started" env_ok] a b c
    by simp
qed

section \<open>Save timeout\<close>

lemma reachable_run: "reachable s \<Longrightarrow> reachable (run evs s)"
proof (induction evs arbitrary: s)
  case Nil
  then show ?case by (simp add: run_def)
next
  case (Cons ev evs)
  have "reachable (step ev s)"
    using Cons.prems by (rule reachable_step)
  then have "reachable (run evs (step ev s))"
    by (rule Cons.IH)
  then show ?case by (simp add: run_def)
qed

lemma reachable_demo: "reachable demo_started" "reachable demo_saving"
proof -
  show "reachable demo_started"
    unfolding demo_started_def by (rule reachable_run) (rule reachable_new)
  then show "reachable demo_saving"
    unfolding demo_saving_def by (rule reachable_step)
qed





lemma save_timer_frames [simp]:
  "m_saveClipTimeoutTimer (emit x s) = m_saveClipTimeoutTimer s"
  "m_saveClipTimeoutTimer (singleShot y s) = m_saveClipTimeoutTimer s"
  "m_saveClipTimeoutTimer (disconnectReplayBufferSignals s) = m_saveClipTimeoutTimer s"
  "m_saveClipTimeoutTimer (snd (GetCurrentGameFolder s)) = m_saveClipTimeoutTimer s"
  by (simp_all add: emit_def singleShot_def disconnectReplayBufferSignals_def
      GetCurrentGameFolder_def Let_def split: option.splits)





section \<open>What a start recreates\<close>

lemma pc_GetCurrentGameFolder [simp]:
  "persistent_components (snd (GetCurrentGameFolder s)) = persistent_components s"
  by (simp add: GetCurrentGameFolder_def Let_def)

lemma pc_CreateBufferOutput [simp]:
  "persistent_components (snd (CreateBufferOutput env s)) = persistent_components s"
  by (simp add: CreateBufferOutput_def Let_def split_def split: option.splits)

lemma pc_StartBufferOutput [simp]:
  "persistent_components (snd (StartBufferOutput env s)) = persistent_components s"
  by (simp add: StartBufferOutput_def Let_def split_def split: option.splits)

lemma pc_UpdateBufferSettings [simp]:
  "persistent_components (snd (UpdateBufferSettings s)) = persistent_components s"
  by (simp add: UpdateBufferSettings_def split: option.splits)

lemma Start_components:
  "persistent_components (snd (StartClippingMode env s)) =
     (if setup_reached env s
      then (if fst (UpdateBufferVideoEncoder env s)
            then persistent_components
                   (snd (UpdateBufferAudioComponents env (snd (UpdateBufferVideoEncoder env s))))
            else persistent_components (snd (UpdateBufferVideoEncoder env s)))
      else persistent_components s)"
  by (simp add: StartClippingMode_def SetupCircularBuffer_def ValidateOBSState_def
      setup_reached_def Let_def split_def)

lemma EncodingSettings_eq_iff: "EncodingSettings_eq a b \<longleftrightarrow> a = b"
  by (cases a, cases b) (auto simp add: EncodingSettings_eq_def)

lemma UBVE_keep:
  "m_bufferVideoEncoder s \<noteq> None \<Longrightarrow>
   lastEncodingSettings (m_bufferState s) = m_encodingSettings s \<Longrightarrow>
   UpdateBufferVideoEncoder env s = (True, s)"
  by (simp add: UpdateBufferVideoEncoder_def hasEncodingChanges_def EncodingSettings_eq_iff)

lemma UBVE_recreate:
  "m_bufferVideoEncoder s = None \<or> lastEncodingSettings (m_bufferState s) \<noteq> m_encodingSettings s \<Longrightarrow>
   CreateEncoder_calls (obs (snd (UpdateBufferVideoEncoder env s))) = Suc (CreateEncoder_calls (obs s))
   \<and> (case m_bufferVideoEncoder (snd (UpdateBufferVideoEncoder env s)) of
         None \<Rightarrow> \<not> fst (UpdateBufferVideoEncoder env s)
       | Some e \<Rightarrow> fst (UpdateBufferVideoEncoder env s)
           \<and> encoder_serial e = Suc (CreateEncoder_calls (obs s)))"
  by (auto simp add: UpdateBufferVideoEncoder_def hasEncodingChanges_def EncodingSettings_eq_iff
      CreateEncoder_def release_encoder_def Let_def split: option.splits)

lemma video_frames_blocks [simp]:
  "m_bufferVideoEncoder (recreate_desktop_audio_source env b s) = m_bufferVideoEncoder s"
  "CreateEncoder_calls (obs (recreate_desktop_audio_source env b s)) = CreateEncoder_calls (obs s)"
  "m_bufferVideoEncoder (apply_desktop_audio_settings s) = m_bufferVideoEncoder s"
  "CreateEncoder_calls (obs (apply_desktop_audio_settings s)) = CreateEncoder_calls (obs s)"
  "m_bufferVideoEncoder (recreate_microphone_source env b s) = m_bufferVideoEncoder s"
  "CreateEncoder_calls (obs (recreate_microphone_source env b s)) = CreateEncoder_calls (obs s)"
  "m_bufferVideoEncoder (apply_microphone_settings env s) = m_bufferVideoEncoder s"
  "CreateEncoder_calls (obs (apply_microphone_settings env s)) = CreateEncoder_calls (obs s)"
  "m_bufferVideoEncoder (snd (recreate_audio_encoder env b s)) = m_bufferVideoEncoder s"
  "CreateEncoder_calls (obs (snd (recreate_audio_encoder env b s))) = CreateEncoder_calls (obs s)"
  by (simp_all add: recreate_desktop_audio_source_def apply_desktop_audio_settings_def
      recreate_microphone_source_def apply_microphone_settings_def recreate_audio_encoder_def
      CreateAudioSource_def CreateMicrophoneSource_def CreateAudioEncoder_def
      release_source_def release_encoder_def Let_def split_def split: option.splits)

lemma UBAC_video [simp]:
  "m_bufferVideoEncoder (snd (UpdateBufferAudioComponents env s)) = m_bufferVideoEncoder s"
  "CreateEncoder_calls (obs (snd (UpdateBufferAudioComponents env s))) = CreateEncoder_calls (obs s)"
  by (simp_all add: UpdateBufferAudioComponents_def Let_def)

lemma Start_video:
  "m_bufferVideoEncoder (snd (StartClippingMode env s))
     = (if setup_reached env s then m_bufferVideoEncoder (snd (UpdateBufferVideoEncoder env s))
        else m_bufferVideoEncoder s)"
  "CreateEncoder_calls (obs (snd (StartClippingMode env s)))
     = (if setup_reached env s
        then CreateEncoder_calls (obs (snd (UpdateBufferVideoEncoder env s)))
        else CreateEncoder_calls (obs s))"
proof -
  let ?v = "snd (UpdateBufferVideoEncoder env s)"
  let ?a = "snd (UpdateBufferAudioComponents env ?v)"
  let ?t = "snd (StartClippingMode env s)"
  have sel: "persistent_components x = persistent_components y \<Longrightarrow>
      m_bufferVideoEncoder x = m_bufferVideoEncoder y
      \<and> CreateEncoder_calls (obs x) = CreateEncoder_calls (obs y)" for x y
    by (simp add: persistent_components_def component_counters_def)
  have "m_bufferVideoEncoder ?t
          = (if setup_reached env s then m_bufferVideoEncoder ?v else m_bufferVideoEncoder s)
      \<and> CreateEncoder_calls (obs ?t)
          = (if setup_reached env s then CreateEncoder_calls (obs ?v)
             else CreateEncoder_calls (obs s))"
    using Start_components [of env s] sel [of ?t ?a] sel [of ?t ?v] sel [of ?t s]
    by (simp split: if_splits)
  then show
    "m_bufferVideoEncoder ?t
       = (if setup_reached env s then m_bufferVideoEncoder ?v else m_bufferVideoEncoder s)"
    "CreateEncoder_calls (obs ?t)
       = (if setup_reached env s then CreateEncoder_calls (obs ?v)
          else CreateEncoder_calls (obs s))"
    by simp_all
qed

section \<open>The tracker of the encoding settings\<close>

lemma vv_update [simp]:
  "video_view (m_obsInitialized_update f0 s) = video_view s"
  "video_view (m_isRecording_update f1 s) = video_view s"
  "video_view (m_clippingModeActive_update f2 s) = video_view s"
  "video_view (m_audioSettings_update f3 s) = video_view s"
  "video_view (m_microphoneSettings_update f4 s) = video_view s"
  "video_view (m_availableEncoders_update f6 s) = video_view s"
  "video_view (m_scene_update f8 s) = video_view s"
  "video_view (m_currentSource_update f9 s) = video_view s"
  "video_view (m_desktopAudioSource_update f10 s) = video_view s"
  "video_view (m_microphoneSource_update f11 s) = video_view s"
  "video_view (m_bufferOutput_update f12 s) = video_view s"
  "video_view (m_bufferAudioEncoder_update f14 s) = video_view s"
  "video_view (m_bufferStopTimer_update f15 s) = video_view s"
  "video_view (m_saveClipTimeoutTimer_update f16 s) = video_view s"
  "video_view (m_pendingBufferCallback_update f17 s) = video_view s"
  "video_view (m_saveCooldownTimer_update f18 s) = video_view s"
  "video_view (m_currentRecordingFile_update f19 s) = video_view s"
  "video_view (m_outputFolder_update f20 s) = video_view s"
  "video_view (m_currentGameName_update f21 s) = video_view s"
  "video_view (m_cachedGameFolder_update f22 s) = video_view s"
  "video_view (m_bufferDurationSeconds_update f23 s) = video_view s"
  "video_view (singleShots_update f24 s) = video_view s"
  "video_view (emitted_update f25 s) = video_view s"
  "video_view (obs_update f26 s) = video_view s"
  by (simp_all add: video_view_def)

lemma vv_state [simp]:
  "lastEncodingSettings (f (m_bufferState s)) = lastEncodingSettings (m_bufferState s) \<Longrightarrow>
   video_view (m_bufferState_update f s) = video_view s"
  by (simp add: video_view_def)

lemma vv_emit [simp]: "video_view (emit x s) = video_view s"
  by (simp add: emit_def)
lemma vv_singleShot [simp]: "video_view (singleShot x s) = video_view s"
  by (simp add: singleShot_def)
lemma vv_release_encoder [simp]: "video_view (release_encoder s) = video_view s"
  by (simp add: release_encoder_def)
lemma vv_release_source [simp]: "video_view (release_source s) = video_view s"
  by (simp add: release_source_def)
lemma vv_CreateAudioEncoder [simp]:
  "video_view (snd (CreateAudioEncoder env s)) = video_view s"
  by (simp add: CreateAudioEncoder_def Let_def)
lemma vv_CreateAudioSource [simp]:
  "video_view (snd (CreateAudioSource env s)) = video_view s"
  by (simp add: CreateAudioSource_def Let_def)
lemma vv_CreateMicrophoneSource [simp]:
  "video_view (snd (CreateMicrophoneSource env s)) = video_view s"
  by (simp add: CreateMicrophoneSource_def Let_def)
lemma vv_rda [simp]:
  "video_view (recreate_desktop_audio_source env b s) = video_view s"
  by (simp add: recreate_desktop_audio_source_def Let_def split_def)
lemma vv_ada [simp]:
  "video_view (apply_desktop_audio_settings s) = video_view s"
  by (simp add: apply_desktop_audio_settings_def split: option.splits)
lemma vv_rms [simp]:
  "video_view (recreate_microphone_source env b s) = video_view s"
  by (simp add: recreate_microphone_source_def Let_def split_def)
lemma vv_ams [simp]:
  "video_view (apply_microphone_settings env s) = video_view s"
  by (simp add: apply_microphone_settings_def split: option.splits)
lemma vv_rae [simp]:
  "video_view (snd (recreate_audio_encoder env b s)) = video_view s"
  by (simp add: recreate_audio_encoder_def Let_def split_def)
lemma vv_UpdateBufferAudioComponents [simp]:
  "video_view (snd (UpdateBufferAudioComponents env s)) = video_view s"
  by (simp add: UpdateBufferAudioComponents_def Let_def)
lemma vv_disconnect [simp]:
  "video_view (disconnectReplayBufferSignals s) = video_view s"
  by (simp add: disconnectReplayBufferSignals_def split: option.splits)
lemma vv_complete [simp]:
  "video_view (completeBufferCleanup s) = video_view s"
  by (simp add: completeBufferCleanup_def Let_def split: option.splits)
lemma vv_Cleanup [simp]:
  "video_view (CleanupCircularBuffer s) = video_view s"
  by (simp add: CleanupCircularBuffer_def Let_def split: option.splits)
lemma vv_GetCurrentGameFolder [simp]:
  "video_view (snd (GetCurrentGameFolder s)) = video_view s"
  by (simp add: GetCurrentGameFolder_def Let_def)
lemma vv_UpdateBufferOutputDirectory [simp]:
  "video_view (UpdateBufferOutputDirectory s) = video_view s"
  by (simp add: UpdateBufferOutputDirectory_def Let_def split_def split: option.splits)
lemma vv_UpdateBufferSettings [simp]:
  "video_view (snd (UpdateBufferSettings s)) = video_view s"
  by (simp add: UpdateBufferSettings_def split: option.splits)
lemma vv_CreateBufferOutput [simp]:
  "video_view (snd (CreateBufferOutput env s)) = video_view s"
  by (simp add: CreateBufferOutput_def Let_def split_def split: option.splits)
lemma vv_StartBufferOutput [simp]:
  "video_view (snd (StartBufferOutput env s)) = video_view s"
  by (simp add: StartBufferOutput_def Let_def split_def split: option.splits)
lemma vv_StopClippingMode [simp]:
  "video_view (StopClippingMode s) = video_view s"
  by (simp add: StopClippingMode_def Let_def)
lemma vv_onSaveClipTimeout [simp]:
  "video_view (onSaveClipTimeout s) = video_view s"
  by (simp add: onSaveClipTimeout_def Let_def)
lemma vv_FastBufferReset [simp]:
  "video_view (snd (FastBufferReset s)) = video_view s"
  by (simp add: FastBufferReset_def split: option.splits)
lemma vv_run_pending [simp]:
  "video_view (run_pending env cb s) = video_view s"
  by (simp add: run_pending_def Let_def split_def split: pending_callback.splits)
lemma vv_onBufferStopped [simp]:
  "video_view (onBufferStopped env s) = video_view s"
  by (simp add: onBufferStopped_def Let_def split: option.splits)
lemma vv_onBufferStopTimeout [simp]:
  "video_view (onBufferStopTimeout env s) = video_view s"
  by (simp add: onBufferStopTimeout_def Let_def split: option.splits)
lemma vv_handleReplayBufferSaved [simp]:
  "video_view (handleReplayBufferSaved env path s) = video_view s"
  by (simp add: handleReplayBufferSaved_def Let_def split_def)
lemma vv_SaveInstantReplay [simp]:
  "video_view (snd (SaveInstantReplay env now d f s)) = video_view s"
  by (simp add: SaveInstantReplay_def Let_def split: option.splits)
lemma vv_SaveClip [simp]:
  "video_view (snd (SaveClip env now d f s)) = video_view s"
  by (simp add: SaveClip_def)
lemma vv_ClearCapture [simp]:
  "video_view (ClearCapture s) = video_view s"
  by (simp add: ClearCapture_def split: option.splits)
lemma vv_Initialize [simp]:
  "video_view (snd (Initialize env s)) = video_view s"
  by (simp add: Initialize_def DetectAvailableEncoders_def Let_def split_def)
lemma vv_SetGameCapture [simp]:
  "video_view (snd (SetGameCapture env exe stem s)) = video_view s"
  by (simp add: SetGameCapture_def Let_def)
lemma vv_Update [simp]:
  "video_view (snd (UpdateAudioSettings au s)) = video_view s"
  "video_view (snd (UpdateMicrophoneSettings mi s)) = video_view s"
  "video_view (SetBufferDuration d s) = video_view s"
  "video_view (SetOutputFolder f s) = video_view s"
  by (simp_all add: UpdateAudioSettings_def UpdateMicrophoneSettings_def
      SetBufferDuration_def SetOutputFolder_def Let_def split: option.splits)

lemma exact_view:
  "tracker_exact s =
     (case video_view s of (e, t, c) \<Rightarrow>
        (case e of None \<Rightarrow> True | Some x \<Rightarrow> encoder_created_with x = t))"
  by (simp add: tracker_exact_def video_view_def)

lemma te_frame: "video_view t = video_view s \<Longrightarrow> tracker_exact t = tracker_exact s"
  by (simp add: exact_view)

lemma te_UpdateEncodingSettings [simp]:
  "tracker_exact (snd (UpdateEncodingSettings es s)) = tracker_exact s"
  by (simp add: tracker_exact_def UpdateEncodingSettings_def split: option.splits)

lemma te_Shutdown [simp]: "tracker_exact (Shutdown s)"
  by (simp add: tracker_exact_def Shutdown_def Let_def release_encoder_def release_source_def)

lemma UBVE_created_with:
  "tracker_exact s \<Longrightarrow> fst (UpdateBufferVideoEncoder env s) \<Longrightarrow>
   (case m_bufferVideoEncoder (snd (UpdateBufferVideoEncoder env s)) of
      None \<Rightarrow> False
    | Some e \<Rightarrow> encoder_created_with e = m_encodingSettings s)
   \<and> m_encodingSettings (snd (UpdateBufferVideoEncoder env s)) = m_encodingSettings s"
  by (auto simp add: tracker_exact_def UpdateBufferVideoEncoder_def hasEncodingChanges_def
      EncodingSettings_eq_iff CreateEncoder_def release_encoder_def Let_def
      split: option.splits if_splits)


lemma te_Setup:
  assumes "tracker_exact s" "fst (SetupCircularBuffer env s)"
  shows "tracker_exact (snd (SetupCircularBuffer env s))"
proof (cases "ValidateOBSState env s \<and> \<not> isActive (m_bufferState s)")
  case False
  then show ?thesis
    using assms te_frame [of "snd (UpdateBufferSettings s)" s]
    by (auto simp add: SetupCircularBuffer_def)
next
  case True
  obtain r1 s1 where u1: "UpdateBufferVideoEncoder env s = (r1, s1)" by fastforce
  obtain r2 s2 where u2: "UpdateBufferAudioComponents env s1 = (r2, s2)" by fastforce
  obtain r3 s3 where u3: "CreateBufferOutput env s2 = (r3, s3)" by fastforce
  obtain r4 s4 where u4: "StartBufferOutput env s3 = (r4, s4)" by fastforce
  have ok: "r1 \<and> r2 \<and> r3 \<and> r4"
    using assms(2) True u1 u2 u3 u4
    by (simp add: SetupCircularBuffer_def split: if_splits)
  have res: "snd (SetupCircularBuffer env s) =
      s4\<lparr>m_bufferState :=
           \<lparr>isActive = True, lastEncodingSettings = m_encodingSettings s4,
            lastAudioSettings = m_audioSettings s4,
            lastMicrophoneSettings = m_microphoneSettings s4,
            lastBufferDuration = m_bufferDurationSeconds s4\<rparr>\<rparr>"
    using True u1 u2 u3 u4 ok by (simp add: SetupCircularBuffer_def)
  have "video_view s2 = video_view s1"
    using vv_UpdateBufferAudioComponents [of env s1] unfolding u2 by simp
  moreover have "video_view s3 = video_view s2"
    using vv_CreateBufferOutput [of env s2] unfolding u3 by simp
  moreover have "video_view s4 = video_view s3"
    using vv_StartBufferOutput [of env s3] unfolding u4 by simp
  ultimately have v: "m_bufferVideoEncoder s4 = m_bufferVideoEncoder s1"
    "m_encodingSettings s4 = m_encodingSettings s1"
    by (simp_all add: video_view_def)
  have c: "(case m_bufferVideoEncoder s1 of
              None \<Rightarrow> False
            | Some e \<Rightarrow> encoder_created_with e = m_encodingSettings s)
           \<and> m_encodingSettings s1 = m_encodingSettings s"
    using UBVE_created_with [OF assms(1), of env] u1 ok by simp
  show ?thesis
    unfolding res using v c by (simp add: tracker_exact_def split: option.splits)
qed

lemma te_Start:
  "tracker_exact s \<Longrightarrow> fst (StartClippingMode env s) \<Longrightarrow>
   tracker_exact (snd (StartClippingMode env s))"
proof -
  assume ex: "tracker_exact s" and ok: "fst (StartClippingMode env s)"
  have f: "fst (SetupCircularBuffer env s)"
    and r: "snd (StartClippingMode env s) =
      emit (clippingModeChanged True)
        ((snd (SetupCircularBuffer env s))\<lparr>m_clippingModeActive := True\<rparr>)"
    using ok by (simp_all add: StartClippingMode_def Let_def split_def split: if_splits)
  have "tracker_exact (snd (SetupCircularBuffer env s))"
    using ex f by (rule te_Setup)
  then show ?thesis
    unfolding r by (simp add: exact_view)
qed

lemma vv_run_singleShot:
  "f \<noteq> RestartClippingMode \<Longrightarrow> video_view (run_singleShot env f s) = video_view s"
  by (cases f) (simp_all add: run_singleShot_def Let_def split_def)

lemma te_run_singleShot:
  "tracker_exact s \<Longrightarrow> f = RestartClippingMode \<longrightarrow> fst (StartClippingMode env s) \<Longrightarrow>
   tracker_exact (run_singleShot env f s)"
proof (cases "f = RestartClippingMode")
  case True
  assume "tracker_exact s" "f = RestartClippingMode \<longrightarrow> fst (StartClippingMode env s)"
  then show ?thesis
    using True by (simp add: run_singleShot_def te_Start)
next
  case False
  assume "tracker_exact s"
  then show ?thesis
    using te_frame [OF vv_run_singleShot [OF False, of env s]] by simp
qed

lemma te_step:
  "tracker_exact s \<Longrightarrow> \<not> failed_start ev s \<Longrightarrow> tracker_exact (step ev s)"
proof (cases ev)
  case (EvStart env)
  assume "tracker_exact s" "\<not> failed_start ev s"
  then show ?thesis
    using EvStart by (simp add: failed_start_def te_Start)
next
  case (EvSingleShot env i)
  assume ex: "tracker_exact s" and nf: "\<not> failed_start ev s"
  let ?t = "s\<lparr>singleShots := take i (singleShots s) @ drop (Suc i) (singleShots s)\<rparr>"
  have "tracker_exact ?t" using ex by (simp add: exact_view)
  then have "i < length (singleShots s) \<Longrightarrow>
      tracker_exact (run_singleShot env (singleShots s ! i) ?t)"
    using nf EvSingleShot by (intro te_run_singleShot) (simp_all add: failed_start_def)
  then show ?thesis
    using ex EvSingleShot by simp
next
  case EvShutdown
  then show ?thesis by simp
next
  case (EvUpdateEncoding es)
  assume "tracker_exact s"
  then show ?thesis using EvUpdateEncoding by simp
qed (simp_all add: exact_view)

lemma te_new: "tracker_exact (GameCapture_new now)"
  by (simp add: tracker_exact_def GameCapture_new_def)

lemma Start_ok_UBVE:
  "setup_reached env s \<Longrightarrow> fst (StartClippingMode env s) \<Longrightarrow>
   fst (UpdateBufferVideoEncoder env s)"
  by (simp add: StartClippingMode_def SetupCircularBuffer_def ValidateOBSState_def
      setup_reached_def Let_def split_def split: if_splits)

lemma UBVE_ok_encoder:
  "fst (UpdateBufferVideoEncoder env s) \<Longrightarrow>
   m_bufferVideoEncoder (snd (UpdateBufferVideoEncoder env s)) \<noteq> None"
proof -
  assume ok: "fst (UpdateBufferVideoEncoder env s)"
  let ?s1 = "case m_bufferVideoEncoder s of
               Some _ \<Rightarrow> release_encoder (s\<lparr>m_bufferVideoEncoder := None\<rparr>)
             | None \<Rightarrow> s"
  obtain e s2 where c: "CreateEncoder env (m_encodingSettings ?s1) ?s1 = (e, s2)"
    by fastforce
  show ?thesis
    using ok c
    by (simp add: UpdateBufferVideoEncoder_def Let_def del: not_None_eq split: if_splits)
qed

lemma Start_fails_without_encoder:
  "setup_reached env s \<Longrightarrow> m_bufferVideoEncoder (snd (StartClippingMode env s)) = None \<Longrightarrow>
   \<not> fst (StartClippingMode env s)"
  using Start_ok_UBVE [of env s] UBVE_ok_encoder [of env s]
  by (auto simp add: Start_video)

lemma UBVE_recreated_with:
  "m_bufferVideoEncoder s = None \<or> lastEncodingSettings (m_bufferState s) \<noteq> m_encodingSettings s \<Longrightarrow>
   (case m_bufferVideoEncoder (snd (UpdateBufferVideoEncoder env s)) of
      None \<Rightarrow> True
    | Some e \<Rightarrow> encoder_created_with e = m_encodingSettings s)"
  by (auto simp add: UpdateBufferVideoEncoder_def hasEncodingChanges_def EncodingSettings_eq_iff
      CreateEncoder_def release_encoder_def Let_def split: option.splits)

text \<open>
  C1, as stated, fails. After the session above is stopped and the stop has completed,
  the QSV preset is changed while the encoder kind stays x264. The next start releases
  the video encoder and creates a second one.
\<close>

theorem irrelevant_vendor_field_counterexample:
  "encoder (EncodingSettings_default\<lparr>qsvPreset := ''speed''\<rparr>) = X264
   \<and> CreateEncoder_calls (obs demo_started) = 1
   \<and> CreateEncoder_calls
        (obs (run [EvStop, EvEngineStopped, EvBufferStopped env_ok,
                   EvUpdateEncoding (EncodingSettings_default\<lparr>qsvPreset := ''speed''\<rparr>),
                   EvStart env_ok] demo_started)) = 2
   \<and> map_option encoder_serial
        (m_bufferVideoEncoder
           (run [EvStop, EvEngineStopped, EvBufferStopped env_ok,
                 EvUpdateEncoding (EncodingSettings_default\<lparr>qsvPreset := ''speed''\<rparr>),
                 EvStart env_ok] demo_started))
       = Some 2"
  by code_simp

text \<open>
  C1, amended. The equality of EncodingSettings compares every field. Take a start that
  reaches the recreation decisions (engine initialized and valid, clipping off, buffer
  not active) while the manager holds a video encoder and the tracker is exact. When the
  current settings equal the settings the encoder was created with, the start keeps the
  encoder and does not call the encoder factory. When they differ in any field, a vendor
  field that the selected encoder kind does not read included, it calls the factory
  once, and the encoder it holds afterwards is a new object created with the current
  settings; if the factory returns none, the start fails. So the encoder is recreated
  for settings that differ in the bitrate or in the encoder kind. With no encoder the
  factory is called, and a start that does not reach the decisions leaves the encoder
  alone. The tracker is exact after construction and stays exact under every event that
  is not a failed start.
\<close>

theorem video_encoder_recreated_iff_settings_differ:
  "EncodingSettings_eq a b = (a = b)
   \<and> (setup_reached env s \<and> tracker_exact s \<and> m_bufferVideoEncoder s = Some e
        \<and> encoder_created_with e = a \<and> m_encodingSettings s = b \<longrightarrow>
        (a = b \<longrightarrow>
           m_bufferVideoEncoder (snd (StartClippingMode env s)) = Some e
           \<and> CreateEncoder_calls (obs (snd (StartClippingMode env s)))
               = CreateEncoder_calls (obs s))
        \<and> (a \<noteq> b \<longrightarrow>
           CreateEncoder_calls (obs (snd (StartClippingMode env s)))
             = Suc (CreateEncoder_calls (obs s))
           \<and> (case m_bufferVideoEncoder (snd (StartClippingMode env s)) of
                 None \<Rightarrow> \<not> fst (StartClippingMode env s)
               | Some e' \<Rightarrow>
                   encoder_serial e' = Suc (CreateEncoder_calls (obs s))
                   \<and> encoder_created_with e' = b))
        \<and> (bitrate a \<noteq> bitrate b \<or> encoder a \<noteq> encoder b \<longrightarrow>
           CreateEncoder_calls (obs (snd (StartClippingMode env s)))
             = Suc (CreateEncoder_calls (obs s))))
   \<and> (setup_reached env s \<and> m_bufferVideoEncoder s = None \<longrightarrow>
        CreateEncoder_calls (obs (snd (StartClippingMode env s)))
          = Suc (CreateEncoder_calls (obs s)))
   \<and> (\<not> setup_reached env s \<longrightarrow>
        m_bufferVideoEncoder (snd (StartClippingMode env s)) = m_bufferVideoEncoder s
        \<and> CreateEncoder_calls (obs (snd (StartClippingMode env s)))
            = CreateEncoder_calls (obs s))
   \<and> tracker_exact (GameCapture_new now)
   \<and> (tracker_exact s \<and> \<not> failed_start ev s \<longrightarrow> tracker_exact (step ev s))"
proof -
  have keep: "setup_reached env s \<Longrightarrow> tracker_exact s \<Longrightarrow> m_bufferVideoEncoder s = Some e \<Longrightarrow>
      encoder_created_with e = m_encodingSettings s \<Longrightarrow>
      m_bufferVideoEncoder (snd (StartClippingMode env s)) = Some e
      \<and> CreateEncoder_calls (obs (snd (StartClippingMode env s))) = CreateEncoder_calls (obs s)"
    using UBVE_keep [of s env] by (simp add: Start_video tracker_exact_def)
  have differ: "tracker_exact s \<Longrightarrow> m_bufferVideoEncoder s = Some e \<Longrightarrow>
      encoder_created_with e \<noteq> m_encodingSettings s \<Longrightarrow>
      lastEncodingSettings (m_bufferState s) \<noteq> m_encodingSettings s"
    by (simp add: tracker_exact_def)
  have recreate: "setup_reached env s \<Longrightarrow>
      m_bufferVideoEncoder s = None
        \<or> lastEncodingSettings (m_bufferState s) \<noteq> m_encodingSettings s \<Longrightarrow>
      CreateEncoder_calls (obs (snd (StartClippingMode env s)))
        = Suc (CreateEncoder_calls (obs s))
      \<and> (case m_bufferVideoEncoder (snd (StartClippingMode env s)) of
            None \<Rightarrow> \<not> fst (StartClippingMode env s)
          | Some e' \<Rightarrow>
              encoder_serial e' = Suc (CreateEncoder_calls (obs s))
              \<and> encoder_created_with e' = m_encodingSettings s)"
    using UBVE_recreate [of s env] UBVE_recreated_with [of s env]
      Start_fails_without_encoder [of env s]
    by (simp add: Start_video split: option.splits)
  have unreached: "\<not> setup_reached env s \<Longrightarrow>
      m_bufferVideoEncoder (snd (StartClippingMode env s)) = m_bufferVideoEncoder s
      \<and> CreateEncoder_calls (obs (snd (StartClippingMode env s))) = CreateEncoder_calls (obs s)"
    by (simp add: Start_video)
  have pair: "setup_reached env s \<and> tracker_exact s \<and> m_bufferVideoEncoder s = Some e
        \<and> encoder_created_with e = a \<and> m_encodingSettings s = b \<longrightarrow>
        (a = b \<longrightarrow>
           m_bufferVideoEncoder (snd (StartClippingMode env s)) = Some e
           \<and> CreateEncoder_calls (obs (snd (StartClippingMode env s)))
               = CreateEncoder_calls (obs s))
        \<and> (a \<noteq> b \<longrightarrow>
           CreateEncoder_calls (obs (snd (StartClippingMode env s)))
             = Suc (CreateEncoder_calls (obs s))
           \<and> (case m_bufferVideoEncoder (snd (StartClippingMode env s)) of
                 None \<Rightarrow> \<not> fst (StartClippingMode env s)
               | Some e' \<Rightarrow>
                   encoder_serial e' = Suc (CreateEncoder_calls (obs s))
                   \<and> encoder_created_with e' = b))
        \<and> (bitrate a \<noteq> bitrate b \<or> encoder a \<noteq> encoder b \<longrightarrow>
           CreateEncoder_calls (obs (snd (StartClippingMode env s)))
             = Suc (CreateEncoder_calls (obs s)))"
  proof (intro impI, elim conjE)
    assume h: "setup_reached env s" "tracker_exact s" "m_bufferVideoEncoder s = Some e"
      "encoder_created_with e = a" "m_encodingSettings s = b"
    have k: "a = b \<Longrightarrow>
        m_bufferVideoEncoder (snd (StartClippingMode env s)) = Some e
        \<and> CreateEncoder_calls (obs (snd (StartClippingMode env s)))
            = CreateEncoder_calls (obs s)"
      using keep h by simp
    have r: "a \<noteq> b \<Longrightarrow>
        CreateEncoder_calls (obs (snd (StartClippingMode env s)))
          = Suc (CreateEncoder_calls (obs s))
        \<and> (case m_bufferVideoEncoder (snd (StartClippingMode env s)) of
              None \<Rightarrow> \<not> fst (StartClippingMode env s)
            | Some e' \<Rightarrow>
                encoder_serial e' = Suc (CreateEncoder_calls (obs s))
                \<and> encoder_created_with e' = b)"
      using recreate differ h by (simp split: option.splits)
    have f: "bitrate a \<noteq> bitrate b \<or> encoder a \<noteq> encoder b \<Longrightarrow> a \<noteq> b"
      by auto
    show "(a = b \<longrightarrow>
           m_bufferVideoEncoder (snd (StartClippingMode env s)) = Some e
           \<and> CreateEncoder_calls (obs (snd (StartClippingMode env s)))
               = CreateEncoder_calls (obs s))
        \<and> (a \<noteq> b \<longrightarrow>
           CreateEncoder_calls (obs (snd (StartClippingMode env s)))
             = Suc (CreateEncoder_calls (obs s))
           \<and> (case m_bufferVideoEncoder (snd (StartClippingMode env s)) of
                 None \<Rightarrow> \<not> fst (StartClippingMode env s)
               | Some e' \<Rightarrow>
                   encoder_serial e' = Suc (CreateEncoder_calls (obs s))
                   \<and> encoder_created_with e' = b))
        \<and> (bitrate a \<noteq> bitrate b \<or> encoder a \<noteq> encoder b \<longrightarrow>
           CreateEncoder_calls (obs (snd (StartClippingMode env s)))
             = Suc (CreateEncoder_calls (obs s)))"
      using k r f by blast
  qed
  have first: "setup_reached env s \<and> m_bufferVideoEncoder s = None \<longrightarrow>
        CreateEncoder_calls (obs (snd (StartClippingMode env s)))
          = Suc (CreateEncoder_calls (obs s))"
    using recreate by simp
  have pres: "tracker_exact s \<and> \<not> failed_start ev s \<longrightarrow> tracker_exact (step ev s)"
    using te_step [of s ev] by simp
  have eq: "EncodingSettings_eq a b = (a = b)"
    by (simp add: EncodingSettings_eq_iff)
  show ?thesis
    using eq pair first unreached te_new [of now] pres by blast
qed

theorem video_encoder_recreated_iff_settings_differ_witness:
  "setup_reached env_ok demo_stopped \<and> tracker_exact demo_stopped
   \<and> map_option encoder_created_with (m_bufferVideoEncoder demo_stopped)
       = Some EncodingSettings_default
   \<and> m_bufferVideoEncoder (snd (StartClippingMode env_ok demo_stopped))
       = m_bufferVideoEncoder demo_stopped
   \<and> CreateEncoder_calls (obs (snd (StartClippingMode env_ok demo_stopped))) = 1
   \<and> CreateEncoder_calls
        (obs (snd (StartClippingMode env_ok
                (step (EvUpdateEncoding (EncodingSettings_default\<lparr>bitrate := 12000\<rparr>))
                   demo_stopped)))) = 2
   \<and> map_option encoder_created_with
        (m_bufferVideoEncoder
           (snd (StartClippingMode env_ok
              (step (EvUpdateEncoding (EncodingSettings_default\<lparr>bitrate := 12000\<rparr>))
                 demo_stopped))))
       = Some (EncodingSettings_default\<lparr>bitrate := 12000\<rparr>)
   \<and> tracker_exact
        (step (EvStart env_ok)
           (step (EvUpdateEncoding (EncodingSettings_default\<lparr>bitrate := 12000\<rparr>))
              demo_stopped))"
proof -
  let ?b = "EncodingSettings_default\<lparr>bitrate := 12000\<rparr>"
  let ?e = "\<lparr>encoder_serial = 1, encoder_id = ''obs_x264'',
             encoder_created_with = EncodingSettings_default\<rparr>"
  let ?u = "step (EvUpdateEncoding ?b) demo_stopped"
  have a: "setup_reached env_ok demo_stopped" "tracker_exact demo_stopped"
    "m_bufferVideoEncoder demo_stopped = Some ?e"
    "m_encodingSettings demo_stopped = EncodingSettings_default"
    "CreateEncoder_calls (obs demo_stopped) = 1"
    by (simp_all add: setup_reached_def tracker_exact_def demo_stopped_eval demo_started_eval
        env_ok_def)
  have b: "setup_reached env_ok ?u" "m_bufferVideoEncoder ?u = Some ?e"
    "m_encodingSettings ?u = ?b" "CreateEncoder_calls (obs ?u) = 1"
    "EncodingSettings_default \<noteq> ?b"
    by (simp_all add: setup_reached_def demo_stopped_eval demo_started_eval env_ok_def
        UpdateEncodingSettings_def EncodingSettings_eq_def EncodingSettings_default_def)
  have c: "fst (StartClippingMode env_ok ?u)"
    by code_simp
  have nf: "\<not> failed_start (EvUpdateEncoding ?b) demo_stopped"
    "failed_start (EvStart env_ok) ?u = (\<not> fst (StartClippingMode env_ok ?u))"
    by (simp_all add: failed_start_def)
  show ?thesis
    using video_encoder_recreated_iff_settings_differ
        [where a = EncodingSettings_default and b = EncodingSettings_default
           and env = env_ok and s = demo_stopped and e = ?e and now = 0
           and ev = "EvUpdateEncoding ?b"]
      video_encoder_recreated_iff_settings_differ
        [where a = EncodingSettings_default and b = ?b
           and env = env_ok and s = ?u and e = ?e and now = 0
           and ev = "EvStart env_ok"]
      a b c nf
    by (auto split: option.splits)
qed

text \<open>
  The condition on the events cannot be dropped: a start that fails after it has created
  the encoder returns before the tracker is written.
\<close>

lemma failed_start_leaves_tracker_behind:
  "failed_start (EvStart (env_ok\<lparr>env_output_start := False\<rparr>))
     (run [EvSetOutputFolder ''Clips'', EvInitialize env_ok,
           EvUpdateEncoding (EncodingSettings_default\<lparr>encoder := NVENC_H264\<rparr>)]
        (GameCapture_new 0))
   \<and> tracker_exact
       (run [EvSetOutputFolder ''Clips'', EvInitialize env_ok,
             EvUpdateEncoding (EncodingSettings_default\<lparr>encoder := NVENC_H264\<rparr>)]
          (GameCapture_new 0))
   \<and> \<not> tracker_exact
       (run [EvSetOutputFolder ''Clips'', EvInitialize env_ok,
             EvUpdateEncoding (EncodingSettings_default\<lparr>encoder := NVENC_H264\<rparr>),
             EvStart (env_ok\<lparr>env_output_start := False\<rparr>)]
          (GameCapture_new 0))"
  by code_simp

section \<open>Start while clipping is on\<close>

text \<open>
  C2, as stated, fails. In the session above the buffer duration is set to 120 while the
  buffer runs, and Start is called again. The call returns false and changes nothing,
  where the settings update path, UpdateBufferSettings, would have returned true and
  applied the new duration.
\<close>

theorem start_while_active_counterexample:
  "m_clippingModeActive (SetBufferDuration 120 demo_started)
   \<and> isActive (m_bufferState (SetBufferDuration 120 demo_started))
   \<and> StartClippingMode env_ok (SetBufferDuration 120 demo_started)
       = (False, SetBufferDuration 120 demo_started)
   \<and> lastBufferDuration (m_bufferState (SetBufferDuration 120 demo_started)) = 60
   \<and> fst (UpdateBufferSettings (SetBufferDuration 120 demo_started))
   \<and> lastBufferDuration
        (m_bufferState (snd (UpdateBufferSettings (SetBufferDuration 120 demo_started)))) = 120"
  by (simp add: demo_started_eval StartClippingMode_def SetBufferDuration_def
      UpdateBufferSettings_def)

lemma Start_rejected: "m_clippingModeActive s \<Longrightarrow> StartClippingMode env s = (False, s)"
  by (simp add: StartClippingMode_def)

lemma Start_sets_active:
  "fst (StartClippingMode env s) \<Longrightarrow> m_clippingModeActive (snd (StartClippingMode env s))"
  by (simp add: StartClippingMode_def emit_def Let_def split_def split: if_splits)

lemma Start_while_stop_pending:
  "m_obsInitialized s \<Longrightarrow> \<not> m_clippingModeActive s \<Longrightarrow> env_validate env \<Longrightarrow>
   isActive (m_bufferState s) \<Longrightarrow>
   StartClippingMode env s =
     (if fst (UpdateBufferSettings s)
      then (True, emit (clippingModeChanged True)
                    ((snd (UpdateBufferSettings s))\<lparr>m_clippingModeActive := True\<rparr>))
      else (False, CleanupCircularBuffer (snd (UpdateBufferSettings s))))"
  by (simp add: StartClippingMode_def SetupCircularBuffer_def ValidateOBSState_def
      Let_def split_def)

lemma Start_no_output_created:
  "isActive (m_bufferState s) \<Longrightarrow>
   output_create_calls (obs (snd (StartClippingMode env s))) = output_create_calls (obs s)"
  by (simp add: StartClippingMode_def SetupCircularBuffer_def ValidateOBSState_def
      UpdateBufferSettings_def CleanupCircularBuffer_def completeBufferCleanup_def
      disconnectReplayBufferSignals_def emit_def Let_def split_def split: option.splits)

text \<open>
  C2, amended. A start while clipping is on is rejected: it returns false and leaves the
  whole state as it is, so it tears nothing down, recreates nothing and applies no
  settings. A successful start turns clipping on, so a second start right after it is
  such a call and every creation counter stays where the first start left it. The
  settings update path is taken by a start that finds clipping off and the buffer state
  still active, which is the case while a stop is pending; that start creates no
  encoder, no source and no output.
\<close>

theorem Start_while_active_is_rejected:
  "(m_clippingModeActive s \<longrightarrow> StartClippingMode env s = (False, s))
   \<and> (fst (StartClippingMode env s) \<longrightarrow>
        StartClippingMode env' (snd (StartClippingMode env s))
          = (False, snd (StartClippingMode env s)))
   \<and> (m_obsInitialized s \<and> \<not> m_clippingModeActive s \<and> env_validate env
        \<and> isActive (m_bufferState s) \<longrightarrow>
        StartClippingMode env s =
          (if fst (UpdateBufferSettings s)
           then (True, emit (clippingModeChanged True)
                         ((snd (UpdateBufferSettings s))\<lparr>m_clippingModeActive := True\<rparr>))
           else (False, CleanupCircularBuffer (snd (UpdateBufferSettings s)))))
   \<and> (isActive (m_bufferState s) \<longrightarrow>
        persistent_components (snd (StartClippingMode env s)) = persistent_components s
        \<and> output_create_calls (obs (snd (StartClippingMode env s)))
            = output_create_calls (obs s))"
  using Start_rejected [of s env] Start_sets_active [of env s]
    Start_rejected [of "snd (StartClippingMode env s)" env']
    Start_while_stop_pending [of s env] Start_no_output_created [of s env]
    Start_components [of env s]
  by (simp add: setup_reached_def)

theorem Start_while_active_is_rejected_witness:
  "obs (run [EvSetOutputFolder ''Clips'', EvInitialize env_ok] (GameCapture_new 0))
     = \<lparr>CreateEncoder_calls = 0, CreateAudioEncoder_calls = 0,
        CreateAudioSource_calls = 1, CreateMicrophoneSource_calls = 0,
        output_create_calls = 0, encoder_release_calls = 0,
        source_release_calls = 0, live_outputs = 0\<rparr>
   \<and> StartClippingMode env_ok
        (run [EvSetOutputFolder ''Clips'', EvInitialize env_ok] (GameCapture_new 0))
       = (True, demo_started)
   \<and> StartClippingMode env_ok demo_started = (False, demo_started)
   \<and> obs demo_started
       = \<lparr>CreateEncoder_calls = 1, CreateAudioEncoder_calls = 1,
          CreateAudioSource_calls = 1, CreateMicrophoneSource_calls = 0,
          output_create_calls = 1, encoder_release_calls = 0,
          source_release_calls = 0, live_outputs = 1\<rparr>
   \<and> fst (StartClippingMode env_ok demo_stopping)
   \<and> persistent_components (snd (StartClippingMode env_ok demo_stopping))
       = persistent_components demo_stopping"
proof -
  let ?i = "run [EvSetOutputFolder ''Clips'', EvInitialize env_ok] (GameCapture_new 0)"
  have i: "obs ?i
     = \<lparr>CreateEncoder_calls = 0, CreateAudioEncoder_calls = 0,
        CreateAudioSource_calls = 1, CreateMicrophoneSource_calls = 0,
        output_create_calls = 0, encoder_release_calls = 0,
        source_release_calls = 0, live_outputs = 0\<rparr>"
    by code_simp
  have f: "fst (StartClippingMode env_ok ?i)"
    by code_simp
  have d: "snd (StartClippingMode env_ok ?i) = demo_started"
    by (simp add: demo_started_def run_def)
  have a: "m_clippingModeActive demo_started"
    and o: "obs demo_started
       = \<lparr>CreateEncoder_calls = 1, CreateAudioEncoder_calls = 1,
          CreateAudioSource_calls = 1, CreateMicrophoneSource_calls = 0,
          output_create_calls = 1, encoder_release_calls = 0,
          source_release_calls = 0, live_outputs = 1\<rparr>"
    by (simp_all add: demo_started_eval)
  have p: "m_obsInitialized demo_stopping" "\<not> m_clippingModeActive demo_stopping"
    "env_validate env_ok" "isActive (m_bufferState demo_stopping)"
    "fst (UpdateBufferSettings demo_stopping)"
    by (simp_all add: demo_stopping_eval demo_started_eval env_ok_def UpdateBufferSettings_def)
  show ?thesis
    using Start_while_active_is_rejected [of "?i" env_ok env_ok]
      Start_while_active_is_rejected [of demo_stopping env_ok env_ok] i f d a o p
    by (simp add: prod_eq_iff)
qed

section \<open>A volume change is applied live\<close>

lemma AudioSettings_eq_volume: "AudioSettings_eq a (a\<lparr>audio_volume := v\<rparr>)"
  by (simp add: AudioSettings_eq_def)

lemma volume_update_settings:
  "m_audioSettings (volume_update v s) = (m_audioSettings s)\<lparr>audio_volume := v\<rparr>"
  by (simp add: volume_update_def UpdateAudioSettings_def Let_def split: option.splits)

lemma volume_update_live:
  "m_desktopAudioSource s = Some src \<Longrightarrow> v \<noteq> audio_volume (m_audioSettings s) \<Longrightarrow>
   m_desktopAudioSource (volume_update v s) = Some (src\<lparr>source_volume := v\<rparr>)"
  by (simp add: volume_update_def UpdateAudioSettings_def Let_def)

lemma volume_update_frames [simp]:
  "m_obsInitialized (volume_update v s) = m_obsInitialized s"
  "m_clippingModeActive (volume_update v s) = m_clippingModeActive s"
  "m_bufferState (volume_update v s) = m_bufferState s"
  "m_bufferVideoEncoder (volume_update v s) = m_bufferVideoEncoder s"
  "m_bufferAudioEncoder (volume_update v s) = m_bufferAudioEncoder s"
  "m_encodingSettings (volume_update v s) = m_encodingSettings s"
  "m_availableEncoders (volume_update v s) = m_availableEncoders s"
  "obs (volume_update v s) = obs s"
  "(m_desktopAudioSource (volume_update v s) = None) = (m_desktopAudioSource s = None)"
  "map_option source_serial (m_desktopAudioSource (volume_update v s))
     = map_option source_serial (m_desktopAudioSource s)"
  "audio_deviceId (m_audioSettings (volume_update v s)) = audio_deviceId (m_audioSettings s)"
  "audio_bitrate (m_audioSettings (volume_update v s)) = audio_bitrate (m_audioSettings s)"
  by (simp_all add: volume_update_def UpdateAudioSettings_def Let_def split: option.splits)

lemma UBVE_audio_frames [simp]:
  "m_desktopAudioSource (snd (UpdateBufferVideoEncoder env s)) = m_desktopAudioSource s"
  "m_bufferAudioEncoder (snd (UpdateBufferVideoEncoder env s)) = m_bufferAudioEncoder s"
  "m_audioSettings (snd (UpdateBufferVideoEncoder env s)) = m_audioSettings s"
  "m_bufferState (snd (UpdateBufferVideoEncoder env s)) = m_bufferState s"
  "CreateAudioSource_calls (obs (snd (UpdateBufferVideoEncoder env s)))
     = CreateAudioSource_calls (obs s)"
  "CreateAudioEncoder_calls (obs (snd (UpdateBufferVideoEncoder env s)))
     = CreateAudioEncoder_calls (obs s)"
  by (simp_all add: UpdateBufferVideoEncoder_def CreateEncoder_def release_encoder_def
      Let_def split_def split: option.splits)

lemma UBVE_fst_cong:
  "m_bufferVideoEncoder t = m_bufferVideoEncoder s \<Longrightarrow> m_bufferState t = m_bufferState s \<Longrightarrow>
   m_encodingSettings t = m_encodingSettings s \<Longrightarrow>
   m_availableEncoders t = m_availableEncoders s \<Longrightarrow>
   fst (UpdateBufferVideoEncoder env t) = fst (UpdateBufferVideoEncoder env s)"
  by (simp add: UpdateBufferVideoEncoder_def CreateEncoder_def release_encoder_def
      Let_def split_def split: option.splits)

lemma audio_blocks [simp]:
  "CreateAudioSource_calls (obs (recreate_desktop_audio_source env b s))
     = CreateAudioSource_calls (obs s) + (if b then 1 else 0)"
  "CreateAudioEncoder_calls (obs (recreate_desktop_audio_source env b s))
     = CreateAudioEncoder_calls (obs s)"
  "m_bufferAudioEncoder (recreate_desktop_audio_source env b s) = m_bufferAudioEncoder s"
  "m_audioSettings (recreate_desktop_audio_source env b s) = m_audioSettings s"
  "m_bufferState (recreate_desktop_audio_source env b s) = m_bufferState s"
  "recreate_desktop_audio_source env False s = s"
  "CreateAudioSource_calls (obs (apply_desktop_audio_settings s)) = CreateAudioSource_calls (obs s)"
  "CreateAudioEncoder_calls (obs (apply_desktop_audio_settings s))
     = CreateAudioEncoder_calls (obs s)"
  "m_bufferAudioEncoder (apply_desktop_audio_settings s) = m_bufferAudioEncoder s"
  "map_option source_serial (m_desktopAudioSource (apply_desktop_audio_settings s))
     = map_option source_serial (m_desktopAudioSource s)"
  "CreateAudioSource_calls (obs (recreate_microphone_source env b s))
     = CreateAudioSource_calls (obs s)"
  "CreateAudioEncoder_calls (obs (recreate_microphone_source env b s))
     = CreateAudioEncoder_calls (obs s)"
  "m_bufferAudioEncoder (recreate_microphone_source env b s) = m_bufferAudioEncoder s"
  "m_desktopAudioSource (recreate_microphone_source env b s) = m_desktopAudioSource s"
  "CreateAudioSource_calls (obs (apply_microphone_settings env s)) = CreateAudioSource_calls (obs s)"
  "CreateAudioEncoder_calls (obs (apply_microphone_settings env s))
     = CreateAudioEncoder_calls (obs s)"
  "m_bufferAudioEncoder (apply_microphone_settings env s) = m_bufferAudioEncoder s"
  "m_desktopAudioSource (apply_microphone_settings env s) = m_desktopAudioSource s"
  "CreateAudioSource_calls (obs (snd (recreate_audio_encoder env b s)))
     = CreateAudioSource_calls (obs s)"
  "CreateAudioEncoder_calls (obs (snd (recreate_audio_encoder env b s)))
     = CreateAudioEncoder_calls (obs s) + (if b then 1 else 0)"
  "m_desktopAudioSource (snd (recreate_audio_encoder env b s)) = m_desktopAudioSource s"
  "recreate_audio_encoder env False s = (True, s)"
  by (simp_all add: recreate_desktop_audio_source_def apply_desktop_audio_settings_def
      recreate_microphone_source_def apply_microphone_settings_def recreate_audio_encoder_def
      CreateAudioSource_def CreateMicrophoneSource_def CreateAudioEncoder_def
      release_source_def release_encoder_def Let_def split_def split: option.splits)

lemma UBAC_audio_calls:
  "CreateAudioSource_calls (obs (snd (UpdateBufferAudioComponents env s)))
     = CreateAudioSource_calls (obs s)
       + (if m_desktopAudioSource s = None
             \<or> audio_deviceId (lastAudioSettings (m_bufferState s))
                  \<noteq> audio_deviceId (m_audioSettings s)
          then 1 else 0)"
  "CreateAudioEncoder_calls (obs (snd (UpdateBufferAudioComponents env s)))
     = CreateAudioEncoder_calls (obs s)
       + (if m_bufferAudioEncoder s = None
             \<or> audio_bitrate (lastAudioSettings (m_bufferState s))
                  \<noteq> audio_bitrate (m_audioSettings s)
          then 1 else 0)"
  by (simp_all add: UpdateBufferAudioComponents_def Let_def)

lemma UBAC_keep:
  "m_desktopAudioSource s \<noteq> None \<Longrightarrow> m_bufferAudioEncoder s \<noteq> None \<Longrightarrow>
   audio_deviceId (lastAudioSettings (m_bufferState s)) = audio_deviceId (m_audioSettings s) \<Longrightarrow>
   audio_bitrate (lastAudioSettings (m_bufferState s)) = audio_bitrate (m_audioSettings s) \<Longrightarrow>
   m_bufferAudioEncoder (snd (UpdateBufferAudioComponents env s)) = m_bufferAudioEncoder s
   \<and> map_option source_serial (m_desktopAudioSource (snd (UpdateBufferAudioComponents env s)))
       = map_option source_serial (m_desktopAudioSource s)"
  by (simp add: UpdateBufferAudioComponents_def Let_def del: not_None_eq)

lemma Start_audio:
  "CreateAudioSource_calls (obs (snd (StartClippingMode env s)))
     = CreateAudioSource_calls (obs s)
       + (if setup_reached env s \<and> fst (UpdateBufferVideoEncoder env s)
             \<and> (m_desktopAudioSource s = None
                  \<or> audio_deviceId (lastAudioSettings (m_bufferState s))
                       \<noteq> audio_deviceId (m_audioSettings s))
          then 1 else 0)"
  "CreateAudioEncoder_calls (obs (snd (StartClippingMode env s)))
     = CreateAudioEncoder_calls (obs s)
       + (if setup_reached env s \<and> fst (UpdateBufferVideoEncoder env s)
             \<and> (m_bufferAudioEncoder s = None
                  \<or> audio_bitrate (lastAudioSettings (m_bufferState s))
                       \<noteq> audio_bitrate (m_audioSettings s))
          then 1 else 0)"
proof -
  let ?v = "snd (UpdateBufferVideoEncoder env s)"
  let ?a = "snd (UpdateBufferAudioComponents env ?v)"
  let ?t = "snd (StartClippingMode env s)"
  have sel: "persistent_components x = persistent_components y \<Longrightarrow>
      CreateAudioSource_calls (obs x) = CreateAudioSource_calls (obs y)
      \<and> CreateAudioEncoder_calls (obs x) = CreateAudioEncoder_calls (obs y)" for x y
    by (simp add: persistent_components_def component_counters_def)
  show "CreateAudioSource_calls (obs ?t)
     = CreateAudioSource_calls (obs s)
       + (if setup_reached env s \<and> fst (UpdateBufferVideoEncoder env s)
             \<and> (m_desktopAudioSource s = None
                  \<or> audio_deviceId (lastAudioSettings (m_bufferState s))
                       \<noteq> audio_deviceId (m_audioSettings s))
          then 1 else 0)"
    using Start_components [of env s] sel [of ?t ?a] sel [of ?t ?v] sel [of ?t s]
    by (simp add: UBAC_audio_calls split: if_splits)
  show "CreateAudioEncoder_calls (obs ?t)
     = CreateAudioEncoder_calls (obs s)
       + (if setup_reached env s \<and> fst (UpdateBufferVideoEncoder env s)
             \<and> (m_bufferAudioEncoder s = None
                  \<or> audio_bitrate (lastAudioSettings (m_bufferState s))
                       \<noteq> audio_bitrate (m_audioSettings s))
          then 1 else 0)"
    using Start_components [of env s] sel [of ?t ?a] sel [of ?t ?v] sel [of ?t s]
    by (simp add: UBAC_audio_calls split: if_splits)
qed

lemma Start_audio_keep:
  assumes "m_desktopAudioSource s \<noteq> None" and "m_bufferAudioEncoder s \<noteq> None"
    and "audio_deviceId (lastAudioSettings (m_bufferState s)) = audio_deviceId (m_audioSettings s)"
    and "audio_bitrate (lastAudioSettings (m_bufferState s)) = audio_bitrate (m_audioSettings s)"
  shows "m_bufferAudioEncoder (snd (StartClippingMode env s)) = m_bufferAudioEncoder s
    \<and> map_option source_serial (m_desktopAudioSource (snd (StartClippingMode env s)))
        = map_option source_serial (m_desktopAudioSource s)"
proof -
  let ?v = "snd (UpdateBufferVideoEncoder env s)"
  let ?a = "snd (UpdateBufferAudioComponents env ?v)"
  let ?t = "snd (StartClippingMode env s)"
  have sel: "persistent_components x = persistent_components y \<Longrightarrow>
      m_bufferAudioEncoder x = m_bufferAudioEncoder y
      \<and> m_desktopAudioSource x = m_desktopAudioSource y" for x y
    by (simp add: persistent_components_def)
  have keep: "m_bufferAudioEncoder ?a = m_bufferAudioEncoder s
      \<and> map_option source_serial (m_desktopAudioSource ?a)
          = map_option source_serial (m_desktopAudioSource s)"
    using UBAC_keep [of ?v env] assms by simp
  show ?thesis
    using Start_components [of env s] sel [of ?t ?a] sel [of ?t ?v] sel [of ?t s] keep
    by (simp split: if_splits)
qed

text \<open>
  C7. An update of the audio settings that changes the volume only leaves the settings
  equal in the sense of the equality of AudioSettings, and sets the volume of an
  existing desktop audio source at once. It does not change what the next start
  creates: the start calls the desktop source factory and the audio encoder factory as
  often with the update as without it. So when the desktop source and the audio
  encoder exist and the last applied audio settings equal the current ones, the start
  after the update calls neither factory and leaves the audio encoder and the desktop
  source object in place.
\<close>

theorem volume_only_update_is_live:
  "AudioSettings_eq (m_audioSettings s) ((m_audioSettings s)\<lparr>audio_volume := v\<rparr>)
   \<and> m_audioSettings (volume_update v s) = (m_audioSettings s)\<lparr>audio_volume := v\<rparr>
   \<and> (m_desktopAudioSource s = Some src \<and> v \<noteq> audio_volume (m_audioSettings s) \<longrightarrow>
        m_desktopAudioSource (volume_update v s) = Some (src\<lparr>source_volume := v\<rparr>))
   \<and> CreateAudioSource_calls (obs (snd (StartClippingMode env (volume_update v s))))
       = CreateAudioSource_calls (obs (snd (StartClippingMode env s)))
   \<and> CreateAudioEncoder_calls (obs (snd (StartClippingMode env (volume_update v s))))
       = CreateAudioEncoder_calls (obs (snd (StartClippingMode env s)))
   \<and> (m_desktopAudioSource s \<noteq> None \<and> m_bufferAudioEncoder s \<noteq> None
        \<and> AudioSettings_eq (lastAudioSettings (m_bufferState s)) (m_audioSettings s) \<longrightarrow>
        CreateAudioSource_calls (obs (snd (StartClippingMode env (volume_update v s))))
          = CreateAudioSource_calls (obs s)
        \<and> CreateAudioEncoder_calls (obs (snd (StartClippingMode env (volume_update v s))))
            = CreateAudioEncoder_calls (obs s)
        \<and> m_bufferAudioEncoder (snd (StartClippingMode env (volume_update v s)))
            = m_bufferAudioEncoder s
        \<and> map_option source_serial
              (m_desktopAudioSource (snd (StartClippingMode env (volume_update v s))))
            = map_option source_serial (m_desktopAudioSource s))"
proof -
  let ?u = "volume_update v s"
  have reached: "setup_reached env ?u = setup_reached env s"
    by (simp add: setup_reached_def)
  have video: "fst (UpdateBufferVideoEncoder env ?u) = fst (UpdateBufferVideoEncoder env s)"
    by (rule UBVE_fst_cong) simp_all
  have same_src: "CreateAudioSource_calls (obs (snd (StartClippingMode env ?u)))
       = CreateAudioSource_calls (obs (snd (StartClippingMode env s)))"
    by (simp add: Start_audio reached video)
  have same_enc: "CreateAudioEncoder_calls (obs (snd (StartClippingMode env ?u)))
       = CreateAudioEncoder_calls (obs (snd (StartClippingMode env s)))"
    by (simp add: Start_audio reached video)
  have kept: "m_desktopAudioSource s \<noteq> None \<and> m_bufferAudioEncoder s \<noteq> None
        \<and> AudioSettings_eq (lastAudioSettings (m_bufferState s)) (m_audioSettings s) \<Longrightarrow>
      CreateAudioSource_calls (obs (snd (StartClippingMode env ?u)))
          = CreateAudioSource_calls (obs s)
      \<and> CreateAudioEncoder_calls (obs (snd (StartClippingMode env ?u)))
          = CreateAudioEncoder_calls (obs s)
      \<and> m_bufferAudioEncoder (snd (StartClippingMode env ?u)) = m_bufferAudioEncoder s
      \<and> map_option source_serial (m_desktopAudioSource (snd (StartClippingMode env ?u)))
          = map_option source_serial (m_desktopAudioSource s)"
    using Start_audio_keep [of ?u env]
    by (simp add: Start_audio AudioSettings_eq_def del: not_None_eq)
  show ?thesis
    using AudioSettings_eq_volume [of "m_audioSettings s" v] volume_update_settings [of v s]
      volume_update_live [of s src v] same_src same_enc kept
    by (simp del: not_None_eq)
qed

theorem volume_only_update_is_live_witness:
  "m_desktopAudioSource (volume_update (1 / 2) demo_stopped)
     = Some \<lparr>source_serial = 1, source_device_id = ''default'', source_volume = 1 / 2,
             source_enabled = True, source_filter = None\<rparr>
   \<and> CreateAudioSource_calls
        (obs (snd (StartClippingMode env_ok (volume_update (1 / 2) demo_stopped)))) = 1
   \<and> CreateAudioEncoder_calls
        (obs (snd (StartClippingMode env_ok (volume_update (1 / 2) demo_stopped)))) = 1
   \<and> m_bufferAudioEncoder (snd (StartClippingMode env_ok (volume_update (1 / 2) demo_stopped)))
       = Some \<lparr>encoder_serial = 1, encoder_id = ''ffmpeg_aac''\<rparr>
   \<and> map_option source_serial
        (m_desktopAudioSource (snd (StartClippingMode env_ok (volume_update (1 / 2) demo_stopped))))
       = Some 1"
proof -
  let ?src = "\<lparr>source_serial = 1, source_device_id = ''default'', source_volume = 1,
               source_enabled = True, source_filter = None\<rparr>"
  have a: "m_desktopAudioSource demo_stopped = Some ?src"
    "m_bufferAudioEncoder demo_stopped = Some \<lparr>encoder_serial = 1, encoder_id = ''ffmpeg_aac''\<rparr>"
    "lastAudioSettings (m_bufferState demo_stopped) = m_audioSettings demo_stopped"
    "audio_volume (m_audioSettings demo_stopped) = 1"
    "CreateAudioSource_calls (obs demo_stopped) = 1"
    "CreateAudioEncoder_calls (obs demo_stopped) = 1"
    by (simp_all add: demo_stopped_eval demo_started_eval AudioSettings_default_def)
  show ?thesis
    using volume_only_update_is_live [of demo_stopped "1 / 2" ?src env_ok] a
    by (simp add: AudioSettings_eq_def)
qed

section \<open>The invariant of the buffer lifecycle\<close>

lemma lc_update [simp]:
  "lifecycle (m_obsInitialized_update f0 s) = lifecycle s"
  "lifecycle (m_isRecording_update f1 s) = lifecycle s"
  "lifecycle (m_clippingModeActive_update f2 s) = lifecycle s"
  "lifecycle (m_audioSettings_update f3 s) = lifecycle s"
  "lifecycle (m_microphoneSettings_update f4 s) = lifecycle s"
  "lifecycle (m_encodingSettings_update f5 s) = lifecycle s"
  "lifecycle (m_availableEncoders_update f6 s) = lifecycle s"
  "lifecycle (m_scene_update f8 s) = lifecycle s"
  "lifecycle (m_currentSource_update f9 s) = lifecycle s"
  "lifecycle (m_desktopAudioSource_update f10 s) = lifecycle s"
  "lifecycle (m_microphoneSource_update f11 s) = lifecycle s"
  "lifecycle (m_bufferStopTimer_update f15 s) = lifecycle s"
  "lifecycle (m_saveClipTimeoutTimer_update f16 s) = lifecycle s"
  "lifecycle (m_pendingBufferCallback_update f17 s) = lifecycle s"
  "lifecycle (m_saveCooldownTimer_update f18 s) = lifecycle s"
  "lifecycle (m_currentRecordingFile_update f19 s) = lifecycle s"
  "lifecycle (m_outputFolder_update f20 s) = lifecycle s"
  "lifecycle (m_currentGameName_update f21 s) = lifecycle s"
  "lifecycle (m_cachedGameFolder_update f22 s) = lifecycle s"
  "lifecycle (m_bufferDurationSeconds_update f23 s) = lifecycle s"
  "lifecycle (singleShots_update f24 s) = lifecycle s"
  "lifecycle (emitted_update f25 s) = lifecycle s"
  by (simp_all add: lifecycle_def)

lemma lc_output [simp]:
  "map_option attachments (f (m_bufferOutput s)) = map_option attachments (m_bufferOutput s) \<Longrightarrow>
   lifecycle (m_bufferOutput_update f s) = lifecycle s"
  by (simp add: lifecycle_def)

lemma lc_state [simp]:
  "isActive (f (m_bufferState s)) = isActive (m_bufferState s) \<Longrightarrow>
   lifecycle (m_bufferState_update f s) = lifecycle s"
  by (simp add: lifecycle_def)

lemma lc_obs [simp]:
  "live_outputs (f (obs s)) = live_outputs (obs s) \<Longrightarrow>
   lifecycle (obs_update f s) = lifecycle s"
  by (simp add: lifecycle_def)

lemma attachments_update [simp]:
  "attachments (output_serial_update g0 p) = attachments p"
  "attachments (output_active_update g1 p) = attachments p"
  "attachments (output_stopping_update g2 p) = attachments p"
  "attachments (output_signal_handler_update g3 p) = attachments p"
  "attachments (output_proc_handler_update g4 p) = attachments p"
  "attachments (output_stop_connected_update g5 p) = attachments p"
  "attachments (output_saved_connected_update g6 p) = attachments p"
  "attachments (output_stop_connects_update g9 p) = attachments p"
  "attachments (output_stop_requests_update g10 p) = attachments p"
  "attachments (output_max_time_sec_update g7 p) = attachments p"
  "attachments (output_directory_update g8 p) = attachments p"
  "attachments (connect_stop p) = attachments p"
  "attachments (disconnect_stop p) = attachments p"
  "attachments (obs_output_stop p) = attachments p"
  "attachments (obs_output_force_stop p) = attachments p"
  by (simp_all add: attachments_def connect_stop_def disconnect_stop_def obs_output_stop_def
      obs_output_force_stop_def)

lemma attachments_start [simp]:
  "map_option attachments (snd (obs_output_start env out)) = map_option attachments out"
  by (simp add: obs_output_start_def split: option.splits)

lemma lc_emit [simp]: "lifecycle (emit x s) = lifecycle s"
  by (simp add: emit_def)

lemma lc_singleShot [simp]: "lifecycle (singleShot x s) = lifecycle s"
  by (simp add: singleShot_def)

lemma lc_release_source [simp]: "lifecycle (release_source s) = lifecycle s"
  by (simp add: release_source_def)

lemma lc_release_encoder [simp]: "lifecycle (release_encoder s) = lifecycle s"
  by (simp add: release_encoder_def)

lemma lc_disconnect [simp]: "lifecycle (disconnectReplayBufferSignals s) = lifecycle s"
  by (simp add: disconnectReplayBufferSignals_def split: option.splits)

lemma lc_GetCurrentGameFolder [simp]: "lifecycle (snd (GetCurrentGameFolder s)) = lifecycle s"
  by (simp add: GetCurrentGameFolder_def Let_def)

lemma output_GetCurrentGameFolder [simp]:
  "m_bufferOutput (snd (GetCurrentGameFolder s)) = m_bufferOutput s"
  by (simp add: GetCurrentGameFolder_def Let_def)

lemma lc_UpdateBufferOutputDirectory [simp]:
  "lifecycle (UpdateBufferOutputDirectory s) = lifecycle s"
  by (simp add: UpdateBufferOutputDirectory_def Let_def split_def split: option.splits)

lemma lc_UpdateBufferSettings [simp]: "lifecycle (snd (UpdateBufferSettings s)) = lifecycle s"
  by (simp add: UpdateBufferSettings_def split: option.splits)

lemma lc_settings [simp]:
  "lifecycle (snd (UpdateEncodingSettings es s)) = lifecycle s"
  "lifecycle (snd (UpdateAudioSettings au s)) = lifecycle s"
  "lifecycle (snd (UpdateMicrophoneSettings mi s)) = lifecycle s"
  "lifecycle (SetBufferDuration d s) = lifecycle s"
  "lifecycle (SetOutputFolder f s) = lifecycle s"
  by (simp_all add: UpdateEncodingSettings_def UpdateAudioSettings_def
      UpdateMicrophoneSettings_def SetBufferDuration_def SetOutputFolder_def Let_def
      split: option.splits)

lemma lc_ClearCapture [simp]: "lifecycle (ClearCapture s) = lifecycle s"
  by (simp add: ClearCapture_def split: option.splits)

lemma lc_SetGameCapture [simp]: "lifecycle (snd (SetGameCapture env exe stem s)) = lifecycle s"
  by (simp add: SetGameCapture_def Let_def)

lemma lc_FastBufferReset [simp]: "lifecycle (snd (FastBufferReset s)) = lifecycle s"
  by (simp add: FastBufferReset_def split: option.splits)

lemma lc_onSaveClipTimeout [simp]: "lifecycle (onSaveClipTimeout s) = lifecycle s"
  by (simp add: onSaveClipTimeout_def Let_def)

lemma lc_SaveInstantReplay [simp]:
  "lifecycle (snd (SaveInstantReplay env now d f s)) = lifecycle s"
  by (simp add: SaveInstantReplay_def Let_def option.map_comp comp_def split: option.splits)

lemma lc_SaveClip [simp]:
  "lifecycle (snd (SaveClip env now d f s)) = lifecycle s"
  by (simp add: SaveClip_def)

lemma lc_handleReplayBufferSaved [simp]:
  "lifecycle (handleReplayBufferSaved env path s) = lifecycle s"
  by (simp add: handleReplayBufferSaved_def Let_def split_def)

lemma lc_CreateAudioSource [simp]: "lifecycle (snd (CreateAudioSource env s)) = lifecycle s"
  by (simp add: CreateAudioSource_def Let_def)

lemma lc_Initialize [simp]: "lifecycle (snd (Initialize env s)) = lifecycle s"
  by (simp add: Initialize_def DetectAvailableEncoders_def Let_def split_def)

lemma lc_StartBufferOutput [simp]: "lifecycle (snd (StartBufferOutput env s)) = lifecycle s"
  by (simp add: StartBufferOutput_def Let_def split_def split: option.splits)

lemma inv_complete [simp]:
  "buffer_invariant s \<Longrightarrow> buffer_invariant (completeBufferCleanup s)"
  by (auto simp add: buffer_invariant_def lifecycle_ok_def lifecycle_def
      completeBufferCleanup_def Let_def split: option.splits)

lemma inv_frame: "lifecycle t = lifecycle s \<Longrightarrow> buffer_invariant t = buffer_invariant s"
  by (simp add: buffer_invariant_def)

lemma inv_disconnect [simp]:
  "buffer_invariant (disconnectReplayBufferSignals s) = buffer_invariant s"
  by (simp add: buffer_invariant_def)

lemma inv_Cleanup [simp]:
  "buffer_invariant s \<Longrightarrow> buffer_invariant (CleanupCircularBuffer s)"
proof -
  assume inv: "buffer_invariant s"
  let ?d = "disconnectReplayBufferSignals s"
  have d: "buffer_invariant ?d" using inv by simp
  have async: "m_bufferOutput ?d = Some p \<Longrightarrow>
      buffer_invariant
        (?d\<lparr>m_pendingBufferCallback := Some CleanupCallback,
            m_bufferStopTimer := timer_start (m_bufferStopTimer ?d),
            m_bufferOutput := Some (obs_output_stop (connect_stop p))\<rparr>)" for p
    using d by (simp add: buffer_invariant_def)
  show ?thesis
    using inv d async
    by (simp add: CleanupCircularBuffer_def Let_def split: option.splits)
qed

lemma inv_emit [simp]: "buffer_invariant (emit x s) = buffer_invariant s"
  by (simp add: buffer_invariant_def)

lemma inv_singleShot [simp]: "buffer_invariant (singleShot x s) = buffer_invariant s"
  by (simp add: buffer_invariant_def)

lemma inv_flags [simp]:
  "buffer_invariant (m_clippingModeActive_update f s) = buffer_invariant s"
  "buffer_invariant (m_isRecording_update g s) = buffer_invariant s"
  "buffer_invariant (m_pendingBufferCallback_update h s) = buffer_invariant s"
  "buffer_invariant (m_bufferStopTimer_update k s) = buffer_invariant s"
  "buffer_invariant (m_saveClipTimeoutTimer_update l s) = buffer_invariant s"
  "buffer_invariant (singleShots_update m s) = buffer_invariant s"
  "buffer_invariant (m_scene_update n s) = buffer_invariant s"
  "buffer_invariant (m_obsInitialized_update q s) = buffer_invariant s"
  "buffer_invariant (m_desktopAudioSource_update r s) = buffer_invariant s"
  "buffer_invariant (m_microphoneSource_update t s) = buffer_invariant s"
  by (simp_all add: buffer_invariant_def)

lemma inv_Stop [simp]: "buffer_invariant s \<Longrightarrow> buffer_invariant (StopClippingMode s)"
  by (simp add: StopClippingMode_def Let_def)

lemma inv_output_flags:
  "map_option attachments out = map_option attachments (m_bufferOutput s) \<Longrightarrow>
   buffer_invariant (s\<lparr>m_bufferOutput := out\<rparr>) = buffer_invariant s"
  by (simp add: buffer_invariant_def)

lemma inv_run_pending [simp]:
  "buffer_invariant s \<Longrightarrow> buffer_invariant (run_pending env cb s)"
proof (cases cb)
  case CleanupCallback
  assume "buffer_invariant s"
  then show ?thesis
    using CleanupCallback by (simp add: run_pending_def)
next
  case FastResetCallback
  assume inv: "buffer_invariant s"
  let ?s1 = "s\<lparr>m_pendingBufferCallback := None\<rparr>"
  let ?s2 = "?s1\<lparr>m_bufferOutput := snd (obs_output_start env (m_bufferOutput ?s1))\<rparr>"
  have "buffer_invariant ?s1" using inv by simp
  moreover have "buffer_invariant ?s2 = buffer_invariant ?s1"
    by (rule inv_output_flags) simp
  ultimately show ?thesis
    using FastResetCallback by (simp add: run_pending_def Let_def split_def)
qed

lemma inv_onBufferStopped [simp]:
  "buffer_invariant s \<Longrightarrow> buffer_invariant (onBufferStopped env s)"
proof -
  assume inv: "buffer_invariant s"
  let ?s1 = "s\<lparr>m_bufferStopTimer := timer_stop (m_bufferStopTimer s)\<rparr>"
  let ?s2 = "?s1\<lparr>m_bufferOutput := map_option disconnect_stop (m_bufferOutput ?s1)\<rparr>"
  have "buffer_invariant ?s2 = buffer_invariant ?s1"
    by (rule inv_output_flags) (simp add: option.map_comp comp_def)
  then have "buffer_invariant ?s2" using inv by simp
  then show ?thesis
    by (simp add: onBufferStopped_def Let_def split: option.splits)
qed

lemma inv_onBufferStopTimeout [simp]:
  "buffer_invariant s \<Longrightarrow> buffer_invariant (onBufferStopTimeout env s)"
proof -
  assume inv: "buffer_invariant s"
  let ?f = "\<lambda>p. let q = disconnect_stop p
                in if output_active q then obs_output_force_stop q else q"
  let ?s1 = "s\<lparr>m_bufferOutput := map_option ?f (m_bufferOutput s)\<rparr>"
  have "attachments (?f p) = attachments p" for p
    by (simp add: Let_def)
  then have "buffer_invariant ?s1 = buffer_invariant s"
    by (intro inv_output_flags) (simp add: option.map_comp comp_def)
  then have "buffer_invariant ?s1" using inv by simp
  then show ?thesis
    by (simp add: onBufferStopTimeout_def Let_def split: option.splits)
qed

lemma inv_trivial [simp]:
  "buffer_invariant (snd (UpdateEncodingSettings es s)) = buffer_invariant s"
  "buffer_invariant (snd (UpdateAudioSettings au s)) = buffer_invariant s"
  "buffer_invariant (snd (UpdateMicrophoneSettings mi s)) = buffer_invariant s"
  "buffer_invariant (SetBufferDuration d s) = buffer_invariant s"
  "buffer_invariant (SetOutputFolder f s) = buffer_invariant s"
  "buffer_invariant (ClearCapture s) = buffer_invariant s"
  "buffer_invariant (snd (SetGameCapture env exe stem s)) = buffer_invariant s"
  "buffer_invariant (snd (FastBufferReset s)) = buffer_invariant s"
  "buffer_invariant (onSaveClipTimeout s) = buffer_invariant s"
  "buffer_invariant (snd (SaveInstantReplay env now n fn s)) = buffer_invariant s"
  "buffer_invariant (snd (SaveClip env now n fn s)) = buffer_invariant s"
  "buffer_invariant (handleReplayBufferSaved env path s) = buffer_invariant s"
  "buffer_invariant (snd (Initialize env s)) = buffer_invariant s"
  "buffer_invariant (snd (UpdateBufferSettings s)) = buffer_invariant s"
  "buffer_invariant (release_encoder s) = buffer_invariant s"
  "buffer_invariant (release_source s) = buffer_invariant s"
  by (simp_all add: buffer_invariant_def)

lemma idle_invariant: "idle s \<Longrightarrow> buffer_invariant s"
  by (simp add: idle_def buffer_invariant_def lifecycle_def lifecycle_ok_def)

lemma invariant_inactive: "buffer_invariant s \<Longrightarrow> \<not> isActive (m_bufferState s) \<Longrightarrow> idle s"
  by (auto simp add: idle_def buffer_invariant_def lifecycle_def lifecycle_ok_def
      split: option.splits)

lemma idle_Cleanup: "idle s \<Longrightarrow> CleanupCircularBuffer s = s"
  by (simp add: idle_def CleanupCircularBuffer_def)

lemma idle_UBVE: "idle s \<Longrightarrow> idle (snd (UpdateBufferVideoEncoder env s))"
  by (simp add: idle_def UpdateBufferVideoEncoder_def CreateEncoder_def release_encoder_def
      Let_def split_def split: option.splits)

lemma idle_blocks [simp]:
  "idle (recreate_desktop_audio_source env b s) = idle s"
  "idle (apply_desktop_audio_settings s) = idle s"
  "idle (recreate_microphone_source env b s) = idle s"
  "idle (apply_microphone_settings env s) = idle s"
  "idle (snd (recreate_audio_encoder env b s)) = idle s"
  by (simp_all add: idle_def recreate_desktop_audio_source_def apply_desktop_audio_settings_def
      recreate_microphone_source_def apply_microphone_settings_def recreate_audio_encoder_def
      CreateAudioSource_def CreateMicrophoneSource_def CreateAudioEncoder_def
      release_source_def release_encoder_def Let_def split_def split: option.splits)

lemma idle_UBAC: "idle s \<Longrightarrow> idle (snd (UpdateBufferAudioComponents env s))"
  by (simp add: UpdateBufferAudioComponents_def Let_def)

lemma CBO_idle:
  "idle s \<Longrightarrow>
   (if fst (CreateBufferOutput env s) then created False (snd (CreateBufferOutput env s))
    else idle (snd (CreateBufferOutput env s)))"
  by (simp add: idle_def created_def attachments_def CreateBufferOutput_def
      GetCurrentGameFolder_def Let_def split_def split: option.splits)

lemma SBO_created:
  "created False s \<Longrightarrow>
   (if fst (StartBufferOutput env s) then created True (snd (StartBufferOutput env s))
    else created False (snd (StartBufferOutput env s)))"
  by (auto simp add: created_def attachments_def StartBufferOutput_def obs_output_start_def
      singleShot_def Let_def split_def split: option.splits)

lemma created_Cleanup: "created False s \<Longrightarrow> idle (CleanupCircularBuffer s)"
  by (auto simp add: created_def idle_def CleanupCircularBuffer_def completeBufferCleanup_def
      disconnectReplayBufferSignals_def Let_def split: option.splits)

lemma created_activate:
  "created True s \<Longrightarrow>
   buffer_invariant
     (s\<lparr>m_bufferState :=
          \<lparr>isActive = True, lastEncodingSettings = es, lastAudioSettings = au,
           lastMicrophoneSettings = mi, lastBufferDuration = d\<rparr>\<rparr>)"
  by (auto simp add: created_def buffer_invariant_def lifecycle_def lifecycle_ok_def
      attachments_def split: option.splits)

lemma inv_Setup_idle:
  assumes "idle s"
  shows "buffer_invariant
           (snd (let (r1, s1) = UpdateBufferVideoEncoder env s in
                 if \<not> r1 then (False, CleanupCircularBuffer s1)
                 else
                   let (r2, s2) = UpdateBufferAudioComponents env s1 in
                   if \<not> r2 then (False, CleanupCircularBuffer s2)
                   else
                     let (r3, s3) = CreateBufferOutput env s2 in
                     if \<not> r3 then (False, CleanupCircularBuffer s3)
                     else
                       let (r4, s4) = StartBufferOutput env s3 in
                       if \<not> r4 then (False, CleanupCircularBuffer s4)
                       else
                         (True,
                          s4\<lparr>m_bufferState :=
                               \<lparr>isActive = True,
                                lastEncodingSettings = m_encodingSettings s4,
                                lastAudioSettings = m_audioSettings s4,
                                lastMicrophoneSettings = m_microphoneSettings s4,
                                lastBufferDuration = m_bufferDurationSeconds s4\<rparr>\<rparr>)))"
proof -
  obtain r1 s1 where u1: "UpdateBufferVideoEncoder env s = (r1, s1)" by fastforce
  obtain r2 s2 where u2: "UpdateBufferAudioComponents env s1 = (r2, s2)" by fastforce
  obtain r3 s3 where u3: "CreateBufferOutput env s2 = (r3, s3)" by fastforce
  obtain r4 s4 where u4: "StartBufferOutput env s3 = (r4, s4)" by fastforce
  have i1: "idle s1" using idle_UBVE [OF assms, of env] unfolding u1 by simp
  have i2: "idle s2" using idle_UBAC [OF i1, of env] unfolding u2 by simp
  have c3: "if r3 then created False s3 else idle s3"
    using CBO_idle [OF i2, of env] unfolding u3 by (cases r3) simp_all
  show ?thesis
  proof (cases r1)
    case False
    then show ?thesis
      using u1 i1 by (simp add: idle_Cleanup idle_invariant)
  next
    case r1: True
    show ?thesis
    proof (cases r2)
      case False
      then show ?thesis
        using u1 u2 r1 i2 by (simp add: idle_Cleanup idle_invariant)
    next
      case r2: True
      show ?thesis
      proof (cases r3)
        case False
        then show ?thesis
          using u1 u2 u3 r1 r2 c3 by (simp add: idle_Cleanup idle_invariant)
      next
        case r3: True
        then have c: "created False s3" using c3 by simp
        have c4: "if r4 then created True s4 else created False s4"
          using SBO_created [OF c, of env] unfolding u4 by (cases r4) simp_all
        show ?thesis
        proof (cases r4)
          case False
          then have "idle (CleanupCircularBuffer s4)"
            using c4 by (simp add: created_Cleanup)
          then show ?thesis
            using u1 u2 u3 u4 r1 r2 r3 False by (simp add: idle_invariant)
        next
          case True
          then have "created True s4" using c4 by simp
          then show ?thesis
            using u1 u2 u3 u4 r1 r2 r3 True by (simp add: created_activate)
        qed
      qed
    qed
  qed
qed

lemma inv_Setup [simp]:
  "buffer_invariant s \<Longrightarrow> buffer_invariant (snd (SetupCircularBuffer env s))"
proof -
  assume inv: "buffer_invariant s"
  show ?thesis
  proof (cases "isActive (m_bufferState s)")
    case True
    then show ?thesis
      using inv by (simp add: SetupCircularBuffer_def)
  next
    case False
    then have "idle s" using inv by (simp add: invariant_inactive)
    then show ?thesis
      using inv False inv_Setup_idle [of s env] by (simp add: SetupCircularBuffer_def)
  qed
qed

lemma inv_Start [simp]:
  "buffer_invariant s \<Longrightarrow> buffer_invariant (snd (StartClippingMode env s))"
  by (simp add: StartClippingMode_def Let_def split_def)

lemma inv_run_singleShot [simp]:
  "buffer_invariant s \<Longrightarrow> buffer_invariant (run_singleShot env f s)"
  by (cases f) (simp_all add: run_singleShot_def Let_def split_def)

lemma idle_Shutdown: "idle s \<Longrightarrow> idle (Shutdown s)"
  by (simp add: idle_def Shutdown_def StopClippingMode_def CleanupCircularBuffer_def
      disconnectReplayBufferSignals_def ClearCapture_def release_encoder_def
      release_source_def emit_def Let_def split: option.splits)

lemma inv_Shutdown:
  "buffer_invariant s \<Longrightarrow> \<not> isActive (m_bufferState s) \<Longrightarrow> buffer_invariant (Shutdown s)"
  by (simp add: invariant_inactive idle_Shutdown idle_invariant)

lemma inv_engine_stopped:
  "buffer_invariant (s\<lparr>m_bufferOutput := map_option obs_output_force_stop (m_bufferOutput s)\<rparr>)
     = buffer_invariant s"
  by (rule inv_output_flags) (simp add: option.map_comp comp_def)

lemma inv_step:
  "buffer_invariant s \<Longrightarrow> ev \<noteq> EvShutdown \<or> \<not> isActive (m_bufferState s) \<Longrightarrow>
   buffer_invariant (step ev s)"
  by (cases ev) (simp_all add: inv_engine_stopped inv_Shutdown)

lemma inv_new: "buffer_invariant (GameCapture_new now)"
  by (simp add: buffer_invariant_def lifecycle_def lifecycle_ok_def GameCapture_new_def
      BufferState_reset_def)

lemma inv_orderly: "reachable_orderly s \<Longrightarrow> buffer_invariant s"
  by (induction rule: reachable_orderly.induct) (simp_all add: inv_new inv_step)

lemma orderly_reachable: "reachable_orderly s \<Longrightarrow> reachable s"
  by (induction rule: reachable_orderly.induct) (simp_all add: reachable.intros)

lemma orderly_run:
  "reachable_orderly s \<Longrightarrow> EvShutdown \<notin> set evs \<Longrightarrow> reachable_orderly (run evs s)"
proof (induction evs arbitrary: s)
  case Nil
  then show ?case by (simp add: run_def)
next
  case (Cons ev evs)
  have "reachable_orderly (step ev s)"
    using Cons.prems by (intro orderly_step) auto
  then have "reachable_orderly (run evs (step ev s))"
    using Cons.prems by (intro Cons.IH) simp_all
  then show ?case by (simp add: run_def)
qed

lemma orderly_demo:
  "reachable_orderly demo_started" "reachable_orderly demo_stopping"
  "reachable_orderly demo_stopped"
proof -
  show a: "reachable_orderly demo_started"
    unfolding demo_started_def by (rule orderly_run) (simp_all add: orderly_new)
  show b: "reachable_orderly demo_stopping"
    unfolding demo_stopping_def using a by (rule orderly_step) simp
  show "reachable_orderly demo_stopped"
    unfolding demo_stopped_def using b by (rule orderly_run) simp
qed

text \<open>
  C3, as stated, fails. Shutdown in the started session requests the stop of the running
  output, which completes later, and then releases both encoders. The state is
  reachable; its active flag is set and the output member holds the output, but the
  manager holds no encoder: each of the two encoders ever created, the ones the output
  was attached to, has been released.
\<close>

theorem shutdown_while_active_counterexample:
  "reachable (step EvShutdown demo_started)
   \<and> isActive (m_bufferState (step EvShutdown demo_started))
   \<and> map_option attachments (m_bufferOutput (step EvShutdown demo_started))
       = Some (Some 1, Some 1)
   \<and> m_bufferVideoEncoder (step EvShutdown demo_started) = None
   \<and> m_bufferAudioEncoder (step EvShutdown demo_started) = None
   \<and> CreateEncoder_calls (obs (step EvShutdown demo_started)) = 1
   \<and> CreateAudioEncoder_calls (obs (step EvShutdown demo_started)) = 1
   \<and> encoder_release_calls (obs (step EvShutdown demo_started)) = 2
   \<and> \<not> buffer_invariant (step EvShutdown demo_started)"
proof -
  have "reachable (step EvShutdown demo_started)"
    using reachable_demo(1) by (rule reachable_step)
  moreover have
    "isActive (m_bufferState (step EvShutdown demo_started))
     \<and> map_option attachments (m_bufferOutput (step EvShutdown demo_started))
         = Some (Some 1, Some 1)
     \<and> m_bufferVideoEncoder (step EvShutdown demo_started) = None
     \<and> m_bufferAudioEncoder (step EvShutdown demo_started) = None
     \<and> CreateEncoder_calls (obs (step EvShutdown demo_started)) = 1
     \<and> CreateAudioEncoder_calls (obs (step EvShutdown demo_started)) = 1
     \<and> encoder_release_calls (obs (step EvShutdown demo_started)) = 2
     \<and> \<not> buffer_invariant (step EvShutdown demo_started)"
    by code_simp
  ultimately show ?thesis by simp
qed

text \<open>
  C3, amended. In every state the object reaches from its constructor while Shutdown is
  only called with the buffer state not active, whatever the engine and the file system
  answer and in whatever order the methods, the queued notifications, the timers and the
  single-shot closures run: when the active flag of the buffer state is false, the
  buffer output member is null and no output object is alive in the engine; when it is
  true, the member holds an output, it is the one output object alive, the manager
  holds a video encoder and an audio encoder, and the output is attached to exactly
  these two.
\<close>

theorem buffer_output_exists_iff_active:
  assumes "reachable_orderly s"
  shows "(\<not> isActive (m_bufferState s) \<longrightarrow>
            m_bufferOutput s = None \<and> live_outputs (obs s) = 0)
    \<and> (isActive (m_bufferState s) \<longrightarrow>
          (\<exists>p v a. m_bufferOutput s = Some p \<and> live_outputs (obs s) = 1
             \<and> m_bufferVideoEncoder s = Some v \<and> m_bufferAudioEncoder s = Some a
             \<and> output_video_encoder p = Some (encoder_serial v)
             \<and> output_audio_encoder p = Some (encoder_serial a)))"
proof -
  have "buffer_invariant s"
    using assms by (rule inv_orderly)
  then show ?thesis
    by (cases "m_bufferOutput s")
       (auto simp add: buffer_invariant_def lifecycle_def lifecycle_ok_def attachments_def)
qed

theorem buffer_output_exists_iff_active_witness:
  "reachable_orderly demo_started \<and> isActive (m_bufferState demo_started)
   \<and> map_option output_video_encoder (m_bufferOutput demo_started)
       = Some (map_option encoder_serial (m_bufferVideoEncoder demo_started))
   \<and> map_option output_audio_encoder (m_bufferOutput demo_started)
       = Some (map_option encoder_serial (m_bufferAudioEncoder demo_started))
   \<and> m_bufferVideoEncoder demo_started \<noteq> None
   \<and> m_bufferAudioEncoder demo_started \<noteq> None
   \<and> live_outputs (obs demo_started) = 1
   \<and> reachable_orderly demo_stopping \<and> isActive (m_bufferState demo_stopping)
   \<and> m_bufferOutput demo_stopping \<noteq> None
   \<and> m_bufferVideoEncoder demo_stopping \<noteq> None
   \<and> m_bufferAudioEncoder demo_stopping \<noteq> None
   \<and> reachable_orderly demo_stopped \<and> \<not> isActive (m_bufferState demo_stopped)
   \<and> m_bufferOutput demo_stopped = None \<and> live_outputs (obs demo_stopped) = 0
   \<and> reachable_orderly (step EvShutdown demo_stopped)
   \<and> m_bufferOutput (step EvShutdown demo_stopped) = None"
proof -
  have a: "isActive (m_bufferState demo_started)"
    by (simp add: demo_started_eval)
  have b: "isActive (m_bufferState demo_stopping)"
    by (simp add: demo_stopping_eval demo_started_eval)
  have c: "\<not> isActive (m_bufferState demo_stopped)"
    by (simp add: demo_stopped_eval demo_started_eval)
  have d: "reachable_orderly (step EvShutdown demo_stopped)"
    using orderly_demo(3) c by (intro orderly_step) simp_all
  have e: "\<not> isActive (m_bufferState (step EvShutdown demo_stopped))"
    by code_simp
  show ?thesis
    using buffer_output_exists_iff_active [OF orderly_demo(1)]
      buffer_output_exists_iff_active [OF orderly_demo(2)]
      buffer_output_exists_iff_active [OF orderly_demo(3)]
      buffer_output_exists_iff_active [OF d]
      orderly_demo a b c d e
    by auto
qed

end
